theory Spec2Isabelle
  imports Main
begin

section \<open>Values, frames and errors\<close>

text \<open>
  The dashboard script \<^verbatim>\<open>Tennis_game.py\<close> works on pandas frames built from the rows a
  MySQL cursor returns. A cell is a database value: SQL NULL (Python \<^verbatim>\<open>None\<close>, pandas NaN),
  a string or an integer (in the range of \<^verbatim>\<open>int64\<close>). Columns of fractional numbers are
  outside this development.
\<close>

datatype val = Null | Str string | Num int

text \<open>Python truthiness, as used by the guards \<^verbatim>\<open>... and st.session_state.submitted_country and ...\<close>.\<close>

fun truthy :: "val \<Rightarrow> bool" where
  "truthy Null = False"
| "truthy (Str s) = (s \<noteq> [])"
| "truthy (Num n) = (n \<noteq> 0)"

text \<open>
  The exceptions of the script. A missing column label raises \<^verbatim>\<open>KeyError\<close>; a merge raises
  \<^verbatim>\<open>ValueError\<close> on key columns of incompatible dtypes and \<^verbatim>\<open>MergeError\<close> on labels that
  the suffixes make clash; \<open>Uncaught\<close> is an exception of the database driver that no handler
  of the script catches, with its name.

  The driver fails either with an exception of class \<^verbatim>\<open>pymysql.Error\<close>, the class the two
  handlers of the script name, or with an exception of another class.
\<close>

datatype py_error = KeyError string | ValueError string | MergeError string | Uncaught string

datatype db_error = PymysqlError string | OtherException string

text \<open>
  A frame has column labels and rows; a row holds one cell per label, in the order of the labels.
  The row index of pandas is not modelled: no statement below depends on it.
\<close>

record dataframe =
  columns :: "string list"
  rows :: "val list list"

text \<open>\<^verbatim>\<open>pd.DataFrame()\<close>: no columns and no rows.\<close>

definition DataFrame :: dataframe where
  "DataFrame = \<lparr>columns = [], rows = []\<rparr>"

text \<open>\<^verbatim>\<open>df.empty\<close>: true when any axis has length 0.\<close>

definition df_empty :: "dataframe \<Rightarrow> bool" where
  "df_empty df = (columns df = [] \<or> rows df = [])"

text \<open>
  A frame as the script builds it from a cursor result: labels without repetition and rows
  of the width of the labels.
\<close>

definition wf_df :: "dataframe \<Rightarrow> bool" where
  "wf_df df = (distinct (columns df) \<and> list_all (\<lambda>r. length r = length (columns df)) (rows df))"

text \<open>The position of a label, the first one from the left.\<close>

fun index_of :: "'a \<Rightarrow> 'a list \<Rightarrow> nat option" where
  "index_of x [] = None"
| "index_of x (y # ys) = (if x = y then Some 0 else map_option Suc (index_of x ys))"

text \<open>
  The cell of a row under a label, read by name: this is how the specification speaks about
  a row (its \<^verbatim>\<open>country\<close> field, its \<^verbatim>\<open>rank\<close> field).
\<close>

definition field :: "dataframe \<Rightarrow> val list \<Rightarrow> string \<Rightarrow> val option" where
  "field df r c = map_of (zip (columns df) r) c"

section \<open>Filter state\<close>

text \<open>
  \<^verbatim>\<open>st.session_state\<close> with its three entries (lines 49-52). A fresh session has none of them
  and the script initialises them.
\<close>

record session_state =
  filters_applied :: bool
  submitted_country :: val
  submitted_category :: val

definition initial_state :: session_state where
  "initial_state =
     \<lparr>filters_applied = False, submitted_country = Null, submitted_category = Null\<rparr>"

definition initialize :: "session_state option \<Rightarrow> session_state" where
  "initialize s = (case s of None \<Rightarrow> initial_state | Some st \<Rightarrow> st)"

text \<open>The body of \<^verbatim>\<open>if submitted:\<close> (lines 130-134).\<close>

definition apply_filters :: "val \<Rightarrow> val \<Rightarrow> session_state \<Rightarrow> session_state" where
  "apply_filters selected_country selected_category st =
     st\<lparr>filters_applied := True,
        submitted_country := selected_country,
        submitted_category := selected_category\<rparr>"

text \<open>The body of \<^verbatim>\<open>if clear_filters:\<close> (lines 139-142).\<close>

definition clear_filters :: "session_state \<Rightarrow> session_state" where
  "clear_filters st =
     st\<lparr>filters_applied := False, submitted_country := Null, submitted_category := Null\<rparr>"

text \<open>
  What the user did in one run of the script: the two selections of the form, whether the
  form was submitted, whether the clear button was pressed.
\<close>

record ui_input =
  selected_country :: val
  selected_category :: val
  submitted :: bool
  clear_pressed :: bool

definition sidebar :: "ui_input \<Rightarrow> session_state \<Rightarrow> session_state" where
  "sidebar ui st =
     (let st1 = (if submitted ui
                 then apply_filters (selected_country ui) (selected_category ui) st
                 else st)
      in if clear_pressed ui then clear_filters st1 else st1)"

section \<open>Filter engine\<close>

text \<open>
  \<^verbatim>\<open>df[df[c] == v]\<close>: the rows whose cell under label \<open>c\<close> equals \<open>v\<close>, in their order,
  under the same labels. \<^verbatim>\<open>df[c]\<close> raises \<^verbatim>\<open>KeyError\<close> when there is no such label.
\<close>

definition select_eq :: "dataframe \<Rightarrow> string \<Rightarrow> val \<Rightarrow> py_error + dataframe" where
  "select_eq df c v =
     (case index_of c (columns df) of
        None \<Rightarrow> Inl (KeyError c)
      | Some i \<Rightarrow> Inr (df\<lparr>rows := filter (\<lambda>r. r ! i = v) (rows df)\<rparr>))"

text \<open>
  Lines 158-160, as a function of the merged rankings frame \<open>df\<close>.
  \<^verbatim>\<open>df_merged.copy()\<close> is the frame itself, as a value.
\<close>

definition filtered_df :: "dataframe \<Rightarrow> session_state \<Rightarrow> py_error + dataframe" where
  "filtered_df df st =
     (if filters_applied st \<and> truthy (submitted_country st) \<and> \<not> df_empty df
      then select_eq df ''country'' (submitted_country st)
      else Inr df)"

text \<open>Lines 162-164, as a function of the competitions frame \<open>df\<close>.\<close>

definition filtered_comp :: "dataframe \<Rightarrow> session_state \<Rightarrow> py_error + dataframe" where
  "filtered_comp df st =
     (if filters_applied st \<and> truthy (submitted_category st) \<and> \<not> df_empty df
      then select_eq df ''category_name'' (submitted_category st)
      else Inr df)"

section \<open>Column dtypes and numbers\<close>

text \<open>
  pandas gives every column a dtype. For a frame built from a cursor result it is inferred
  from the cells: \<^verbatim>\<open>int64\<close> when all are integers, \<^verbatim>\<open>float64\<close> when integers stand beside
  missing values, \<^verbatim>\<open>object\<close> otherwise (strings, or nothing but missing values, or no cell
  at all). The merges of the script take such frames, so the dtype of a column is read off
  its cells.
\<close>

datatype dtype = Int64 | Float64 | Object

fun is_num :: "val \<Rightarrow> bool" where
  "is_num (Num n) = True"
| "is_num v = False"

fun is_str :: "val \<Rightarrow> bool" where
  "is_str (Str s) = True"
| "is_str v = False"

definition dtype_of :: "val list \<Rightarrow> dtype" where
  "dtype_of cells =
     (if cells \<noteq> [] \<and> list_all is_num cells then Int64
      else if list_ex is_num cells \<and> \<not> list_ex is_str cells then Float64
      else Object)"

text \<open>
  The conversion of an integer to \<^verbatim>\<open>float64\<close>: the nearest number with 53 significant
  bits, the even one of two that are equally near. It is the integer itself up to \<open>2 ^ 53\<close>.
  A cell \<open>Num n\<close> stands for the number \<open>n\<close> in either storage, as Python compares an
  integer and the float of the same value as equal.
\<close>

function shift53 :: "int \<Rightarrow> nat" where
  "shift53 m = (if m < 2 ^ 53 then 0 else Suc (shift53 (m div 2)))"
  by pat_completeness auto
termination
  by (relation "measure nat") auto

declare shift53.simps [simp del]

definition round53 :: "int \<Rightarrow> int" where
  "round53 m =
     (let k = shift53 m; q = m div 2 ^ k; r = m mod 2 ^ k
      in (if 2 ^ k < 2 * r \<or> (2 * r = 2 ^ k \<and> odd q) then q + 1 else q) * 2 ^ k)"

definition to_float64 :: "int \<Rightarrow> int" where
  "to_float64 n = (if n < 0 then - round53 (- n) else round53 n)"

definition as_float64 :: "val \<Rightarrow> val" where
  "as_float64 v = (case v of Num n \<Rightarrow> Num (to_float64 n) | _ \<Rightarrow> v)"

text \<open>A frame whose numbers \<^verbatim>\<open>float64\<close> holds exactly.\<close>

definition exact_numbers :: "dataframe \<Rightarrow> bool" where
  "exact_numbers df =
     list_all (list_all (\<lambda>v. case v of Num n \<Rightarrow> \<bar>n\<bar> \<le> 2 ^ 53 | _ \<Rightarrow> True)) (rows df)"

section \<open>Data access\<close>

text \<open>
  The database behind the driver, as one run of the script sees it: whether
  \<^verbatim>\<open>pymysql.connect\<close> succeeds, and for each query either the rows \<^verbatim>\<open>cursor.fetchall()\<close>
  returns (a \<^verbatim>\<open>DictCursor\<close> gives one dictionary per row) or the exception raised.
\<close>

record database =
  connect :: "db_error + unit"
  execute :: "string \<Rightarrow> db_error + (string \<times> val) list list"

text \<open>
  Lines 8-21: an exception of class \<^verbatim>\<open>pymysql.Error\<close> is caught and \<^verbatim>\<open>None\<close> returned;
  an exception of another class leaves the function.
\<close>

definition get_connection :: "database \<Rightarrow> py_error + unit option" where
  "get_connection db =
     (case connect db of
        Inr conn \<Rightarrow> Inr (Some conn)
      | Inl (PymysqlError e) \<Rightarrow> Inr None
      | Inl (OtherException e) \<Rightarrow> Inl (Uncaught e))"

text \<open>The elements of a list without repetition, each at its first place.\<close>

definition unique :: "'a list \<Rightarrow> 'a list" where
  "unique xs = rev (remdups (rev xs))"

text \<open>
  \<^verbatim>\<open>pd.DataFrame(result)\<close> on a list of dictionaries: the labels are the keys in the order
  of their first appearance, and a row has NaN where its dictionary lacks a key. A column of
  integers and missing values becomes \<^verbatim>\<open>float64\<close>, its integers converted.
\<close>

definition DataFrame_of :: "(string \<times> val) list list \<Rightarrow> dataframe" where
  "DataFrame_of result =
     (let cols = unique (concat (map (map fst) result));
          raw = map (\<lambda>d. map (\<lambda>c. case map_of d c of None \<Rightarrow> Null | Some v \<Rightarrow> v) cols) result
      in \<lparr>columns = cols,
          rows = map (\<lambda>row. map (\<lambda>(j, v). if dtype_of (map (\<lambda>r. r ! j) raw) = Float64
                                         then as_float64 v else v)
                                (zip [0..<length cols] row))
                     raw\<rparr>)"

text \<open>
  Lines 25-45. The call of \<^verbatim>\<open>get_connection\<close> stands outside the \<^verbatim>\<open>try\<close>, so what it
  raises leaves \<^verbatim>\<open>fetch_table\<close>; inside the \<^verbatim>\<open>try\<close> an exception of class
  \<^verbatim>\<open>pymysql.Error\<close> gives the empty frame and any other exception leaves the function.
\<close>

definition fetch_table :: "database \<Rightarrow> string \<Rightarrow> py_error + dataframe" where
  "fetch_table db query =
     (case get_connection db of
        Inl e \<Rightarrow> Inl e
      | Inr (Some conn) \<Rightarrow>
          (case execute db query of
             Inr result \<Rightarrow> Inr (DataFrame_of result)
           | Inl (PymysqlError e) \<Rightarrow> Inr DataFrame
           | Inl (OtherException e) \<Rightarrow> Inl (Uncaught e))
      | Inr None \<Rightarrow> Inr DataFrame)"

section \<open>Join engine\<close>

text \<open>The cells of a column, by its label.\<close>

definition column :: "dataframe \<Rightarrow> string \<Rightarrow> val list" where
  "column df c =
     (case index_of c (columns df) of None \<Rightarrow> [] | Some j \<Rightarrow> map (\<lambda>r. r ! j) (rows df))"

text \<open>
  The check pandas makes on the two key columns before a merge: a numeric column
  (\<^verbatim>\<open>int64\<close> or \<^verbatim>\<open>float64\<close>) is not merged with an \<^verbatim>\<open>object\<close> column that holds no number
  (strings and missing values only); it raises \<^verbatim>\<open>ValueError\<close>. There is no check when a
  side has no rows.
\<close>

definition keys_clash :: "val list \<Rightarrow> val list \<Rightarrow> bool" where
  "keys_clash a b = (dtype_of a \<noteq> Object \<and> dtype_of b = Object \<and> \<not> list_ex is_num b)"

definition keys_mergeable :: "val list \<Rightarrow> val list \<Rightarrow> bool" where
  "keys_mergeable lk rk = (lk = [] \<or> rk = [] \<or> (\<not> keys_clash lk rk \<and> \<not> keys_clash rk lk))"

text \<open>
  Two keys match when they are equal; where one key column is \<^verbatim>\<open>int64\<close> and the other
  \<^verbatim>\<open>float64\<close>, both are compared as \<^verbatim>\<open>float64\<close>. Two missing keys match, as in pandas.
\<close>

definition key_eq :: "dtype \<Rightarrow> dtype \<Rightarrow> val \<Rightarrow> val \<Rightarrow> bool" where
  "key_eq dl dr a b =
     (if (dl = Int64 \<and> dr = Float64) \<or> (dl = Float64 \<and> dr = Int64)
      then as_float64 a = as_float64 b
      else a = b)"

definition drop_nth :: "nat \<Rightarrow> 'a list \<Rightarrow> 'a list" where
  "drop_nth i xs = take i xs @ drop (Suc i) xs"

text \<open>
  The labels of the result: the key column appears once, under its label, among the columns
  of \<open>left\<close>; a label other than the key that both sides have gets the suffix \<^verbatim>\<open>_x\<close> on the
  left and \<^verbatim>\<open>_y\<close> on the right.
\<close>

definition left_label :: "string list \<Rightarrow> string \<Rightarrow> string \<Rightarrow> string" where
  "left_label rcols key c = (if c \<noteq> key \<and> c \<in> set rcols then c @ ''_x'' else c)"

definition right_label :: "string list \<Rightarrow> string \<Rightarrow> string" where
  "right_label lcols c = (if c \<in> set lcols then c @ ''_y'' else c)"

definition merged_columns :: "string list \<Rightarrow> string list \<Rightarrow> string \<Rightarrow> string list" where
  "merged_columns lcols rcols key =
     map (left_label rcols key) lcols @ map (right_label lcols) (remove1 key rcols)"

text \<open>
  When some row of \<open>left\<close> has no match, the columns of \<open>right\<close> receive missing values, and
  pandas turns those of dtype \<^verbatim>\<open>int64\<close> into \<^verbatim>\<open>float64\<close>. \<open>upcast_cells\<close> does this to
  the cells of a row of \<open>right\<close> without its key cell.
\<close>

definition upcast_cells :: "bool \<Rightarrow> dataframe \<Rightarrow> nat \<Rightarrow> val list \<Rightarrow> val list" where
  "upcast_cells unmatched right ri cells =
     map (\<lambda>(j, v). if unmatched \<and> dtype_of (map (\<lambda>r. r ! j) (rows right)) = Int64
                    then as_float64 v else v)
         (zip (drop_nth ri [0..<length (columns right)]) cells)"

text \<open>
  What one row \<open>l\<close> of \<open>left\<close> contributes: one row for each row of \<open>right\<close> that has its
  key, in the order of \<open>right\<close>, or one row with missing values when there is none.
\<close>

definition merge_row ::
  "(val \<Rightarrow> val \<Rightarrow> bool) \<Rightarrow> (val list \<Rightarrow> val list) \<Rightarrow> nat \<Rightarrow> nat \<Rightarrow> nat
     \<Rightarrow> val list list \<Rightarrow> val list \<Rightarrow> val list list" where
  "merge_row eq conv li ri width rrows l =
     (case filter (\<lambda>r. eq (l ! li) (r ! ri)) rrows of
        [] \<Rightarrow> [l @ replicate width Null]
      | m # ms \<Rightarrow> map (\<lambda>r. l @ conv (drop_nth ri r)) (m # ms))"

text \<open>
  \<^verbatim>\<open>pd.merge(left, right, on=key, how="left")\<close> as pandas 2 documents and performs a left
  join: the key column must exist on both sides (\<^verbatim>\<open>KeyError\<close> otherwise) and the key
  columns must pass the dtype check (\<^verbatim>\<open>ValueError\<close>); labels that the suffixes make equal
  on one side are refused (\<^verbatim>\<open>MergeError\<close>); the rows of \<open>left\<close> are taken in their order.
\<close>

definition pd_merge :: "dataframe \<Rightarrow> dataframe \<Rightarrow> string \<Rightarrow> py_error + dataframe" where
  "pd_merge left right key =
     (case index_of key (columns left) of
        None \<Rightarrow> Inl (KeyError key)
      | Some li \<Rightarrow>
          (case index_of key (columns right) of
             None \<Rightarrow> Inl (KeyError key)
           | Some ri \<Rightarrow>
               (let lk = column left key; rk = column right key;
                    llabels = map (left_label (columns right) key) (columns left);
                    rlabels = map (right_label (columns left)) (remove1 key (columns right));
                    eq = key_eq (dtype_of lk) (dtype_of rk);
                    unmatched = list_ex (\<lambda>l. \<not> list_ex (\<lambda>r. eq (l ! li) (r ! ri)) (rows right))
                                  (rows left)
                in if \<not> keys_mergeable lk rk then Inl (ValueError key)
                   else if \<not> distinct llabels \<or> \<not> distinct rlabels then Inl (MergeError key)
                   else Inr \<lparr>columns = llabels @ rlabels,
                             rows = concat (map (merge_row eq (upcast_cells unmatched right ri)
                                                   li ri (length (columns right) - 1) (rows right))
                                              (rows left))\<rparr>)))"

text \<open>
  What one row \<open>l\<close> of \<open>left\<close> becomes when at most one row of \<open>right\<close> has its key and no
  cell changes by conversion: the cells of \<open>l\<close>, followed by the cells of the matching row
  without its key cell, or by missing values when no row matches.
\<close>

definition joined ::
  "nat \<Rightarrow> nat \<Rightarrow> nat \<Rightarrow> val list list \<Rightarrow> val list \<Rightarrow> val list \<Rightarrow> bool" where
  "joined li ri width rrows l out =
     (take (length l) out = l
      \<and> ((\<exists>r \<in> set rrows. r ! ri = l ! li \<and> drop (length l) out = drop_nth ri r)
         \<or> ((\<forall>r \<in> set rrows. r ! ri \<noteq> l ! li) \<and> drop (length l) out = replicate width Null)))"

text \<open>
  The guarded join the script performs three times (lines 67-70, 72-75, 77-80): the merge
  is made only when neither frame is empty, and the result is \<^verbatim>\<open>pd.DataFrame()\<close> otherwise.
\<close>

definition joinLeft :: "dataframe \<Rightarrow> dataframe \<Rightarrow> string \<Rightarrow> py_error + dataframe" where
  "joinLeft left right key =
     (if \<not> df_empty right \<and> \<not> df_empty left then pd_merge left right key else Inr DataFrame)"

text \<open>The frames of lines 57-86.\<close>

record tables =
  df_competitors :: dataframe
  df_rankings :: dataframe
  df_complexes :: dataframe
  df_venues :: dataframe
  df_category :: dataframe
  df_competition :: dataframe
  df_merged :: dataframe
  venue_info :: dataframe
  comp_info :: dataframe

text \<open>Statements in sequence: the first exception ends the run.\<close>

definition and_then :: "'e + 'a \<Rightarrow> ('a \<Rightarrow> 'e + 'b) \<Rightarrow> 'e + 'b" where
  "and_then m f = (case m of Inl e \<Rightarrow> Inl e | Inr x \<Rightarrow> f x)"

definition load_data :: "database \<Rightarrow> py_error + tables" where
  "load_data db =
     and_then (get_connection db) (\<lambda>conn.
       case conn of
         Some c \<Rightarrow>
           and_then (fetch_table db ''SELECT * FROM competitors'') (\<lambda>competitors.
           and_then (fetch_table db ''SELECT * FROM competitor_rankings'') (\<lambda>rankings.
           and_then (fetch_table db ''SELECT * FROM complexes'') (\<lambda>complexes.
           and_then (fetch_table db ''SELECT * FROM venues'') (\<lambda>venues.
           and_then (fetch_table db ''SELECT * FROM categories'') (\<lambda>category.
           and_then (fetch_table db ''SELECT * FROM competitions'') (\<lambda>competition.
           and_then (joinLeft rankings competitors ''competitor_id'') (\<lambda>merged.
           and_then (joinLeft venues complexes ''complex_id'') (\<lambda>venue.
           and_then (joinLeft competition category ''category_id'') (\<lambda>competition_info.
             Inr \<lparr>df_competitors = competitors, df_rankings = rankings,
                  df_complexes = complexes, df_venues = venues,
                  df_category = category, df_competition = competition,
                  df_merged = merged, venue_info = venue,
                  comp_info = competition_info\<rparr>)))))))))
       | None \<Rightarrow>
           Inr \<lparr>df_competitors = DataFrame, df_rankings = DataFrame,
                df_complexes = DataFrame, df_venues = DataFrame,
                df_category = DataFrame, df_competition = DataFrame,
                df_merged = DataFrame, venue_info = DataFrame, comp_info = DataFrame\<rparr>)"

section \<open>Top 10\<close>

text \<open>
  \<^verbatim>\<open>df.sort_values("rank")\<close> sorts with the default \<^verbatim>\<open>kind='quicksort'\<close>: pandas sets the
  rows with a missing key aside, asks numpy for the permutation that sorts the other keys,
  and appends the rows with a missing key in their order. The permutation numpy computes is
  a parameter here, \<open>argsort\<close>: it takes the keys that are present and returns positions
  in that list.
\<close>

definition nargsort :: "(val list \<Rightarrow> nat list) \<Rightarrow> val list \<Rightarrow> nat list" where
  "nargsort argsort items =
     (let idx = [0..<length items];
          non_nan_idx = filter (\<lambda>i. items ! i \<noteq> Null) idx;
          nan_idx = filter (\<lambda>i. items ! i = Null) idx;
          non_nans = map (\<lambda>i. items ! i) non_nan_idx
      in map (\<lambda>j. non_nan_idx ! j) (argsort non_nans) @ nan_idx)"

definition sort_values ::
  "(val list \<Rightarrow> nat list) \<Rightarrow> dataframe \<Rightarrow> string \<Rightarrow> py_error + dataframe" where
  "sort_values argsort df by =
     (case index_of by (columns df) of
        None \<Rightarrow> Inl (KeyError by)
      | Some i \<Rightarrow>
          Inr (df\<lparr>rows := map (\<lambda>j. rows df ! j)
                             (nargsort argsort (map (\<lambda>r. r ! i) (rows df)))\<rparr>))"

definition head :: "nat \<Rightarrow> dataframe \<Rightarrow> dataframe" where
  "head n df = df\<lparr>rows := take n (rows df)\<rparr>"

text \<open>
  Lines 177-181, as a function of the merged rankings frame \<open>df\<close>. When the frame is empty no top 10 is computed (the page says so instead):
  the result is \<open>None\<close>.
\<close>

definition top10 :: "(val list \<Rightarrow> nat list) \<Rightarrow> dataframe \<Rightarrow> py_error + dataframe option" where
  "top10 argsort df =
     (if \<not> df_empty df
      then (case sort_values argsort df ''rank'' of
              Inl e \<Rightarrow> Inl e
            | Inr sorted_df \<Rightarrow> Inr (Some (head 10 sorted_df)))
      else Inr None)"

section \<open>One run of the script\<close>

text \<open>
  Lines 95-96: the options of a select box are the values of a column that are present,
  each once; there are none when the frame is empty. The script sorts them; their order
  matters to the widget only and is not modelled. The widget's answer is part of \<open>ui_input\<close>.
\<close>

definition option_list :: "dataframe \<Rightarrow> string \<Rightarrow> py_error + val list" where
  "option_list df c =
     (if \<not> df_empty df
      then (case index_of c (columns df) of
              None \<Rightarrow> Inl (KeyError c)
            | Some i \<Rightarrow> Inr (unique (filter (\<lambda>v. v \<noteq> Null) (map (\<lambda>r. r ! i) (rows df)))))
      else Inr [])"

text \<open>
  What a run hands to the tables of the page: the filtered rankings, the top 10, the venues
  and the filtered competitions. The charts are drawn from these by the plotting library.
\<close>

record page =
  shown_rankings :: dataframe
  shown_top10 :: "dataframe option"
  shown_venues :: dataframe
  shown_competitions :: dataframe

text \<open>
  The script from top to bottom: state initialisation, loading, the sidebar, the filters,
  the top 10. The first exception ends the run.
\<close>

definition dashboard ::
  "(val list \<Rightarrow> nat list) \<Rightarrow> database \<Rightarrow> ui_input \<Rightarrow> session_state option
     \<Rightarrow> py_error + session_state \<times> page" where
  "dashboard argsort db ui session =
     (let st0 = initialize session in
      and_then (load_data db) (\<lambda>t.
      and_then (option_list (df_competitors t) ''country'') (\<lambda>country_list.
      and_then (option_list (df_category t) ''category_name'') (\<lambda>category_list.
      let st = sidebar ui st0 in
      and_then (filtered_df (df_merged t) st) (\<lambda>fdf.
      and_then (filtered_comp (comp_info t) st) (\<lambda>fcomp.
      and_then (top10 argsort (df_merged t)) (\<lambda>t10.
        Inr (st, \<lparr>shown_rankings = fdf, shown_top10 = t10,
                  shown_venues = venue_info t, shown_competitions = fcomp\<rparr>))))))))"

section \<open>Example data\<close>

text \<open>
  A small database in the shape the script expects: two ranked competitors, one competition
  with a category and one without, no venues.
\<close>

definition example_db :: database where
  "example_db =
     \<lparr>connect = Inr (),
      execute = (\<lambda>q.
        if q = ''SELECT * FROM competitors'' then
          Inr [[(''competitor_id'', Num 1), (''name'', Str ''Gasquet''), (''country'', Str ''France'')],
               [(''competitor_id'', Num 2), (''name'', Str ''Nadal''), (''country'', Str ''Spain'')]]
        else if q = ''SELECT * FROM competitor_rankings'' then
          Inr [[(''competitor_id'', Num 1), (''rank'', Num 1), (''points'', Num 100)],
               [(''competitor_id'', Num 2), (''rank'', Num 2), (''points'', Num 90)]]
        else if q = ''SELECT * FROM categories'' then
          Inr [[(''category_id'', Num 1), (''category_name'', Str ''ATP'')]]
        else if q = ''SELECT * FROM competitions'' then
          Inr [[(''competition_id'', Num 5), (''category_id'', Num 1)],
               [(''competition_id'', Num 6), (''category_id'', Num 9)]]
        else Inr [])\<rparr>"

text \<open>Ranked competitors after the join, with countries that differ in case only.\<close>

definition example_ranked :: dataframe where
  "example_ranked =
     \<lparr>columns = [''competitor_id'', ''rank'', ''name'', ''country''],
      rows = [[Num 1, Num 1, Str ''Gasquet'', Str ''France''],
              [Num 2, Num 2, Str ''Nadal'', Str ''Spain''],
              [Num 3, Num 3, Str ''Anon'', Str ''france''],
              [Num 4, Null, Str ''Monfils'', Str ''France'']]\<rparr>"

definition example_competitions :: dataframe where
  "example_competitions =
     \<lparr>columns = [''competition_id'', ''category_id'', ''category_name''],
      rows = [[Num 5, Num 1, Str ''ATP''], [Num 6, Num 9, Null], [Num 7, Num 2, Str ''WTA'']]\<rparr>"

definition applied_state :: "val \<Rightarrow> val \<Rightarrow> session_state" where
  "applied_state c g =
     \<lparr>filters_applied = True, submitted_country = c, submitted_category = g\<rparr>"

text \<open>
  One permutation that sorts: by insertion, so that equal keys keep their order. It is what
  \<^verbatim>\<open>kind='stable'\<close> computes, and an instance of the parameter \<open>argsort\<close> for the
  examples; keys that are no numbers count as 0.
\<close>

definition num_key :: "val \<Rightarrow> int" where
  "num_key v = (case v of Num n \<Rightarrow> n | _ \<Rightarrow> 0)"

definition stable_argsort :: "val list \<Rightarrow> nat list" where
  "stable_argsort ks = map snd (sort_key (\<lambda>p. num_key (fst p)) (zip ks [0..<length ks]))"

text \<open>The form submitted with France selected, and the clear button pressed.\<close>

definition ui_apply_france :: ui_input where
  "ui_apply_france =
     \<lparr>selected_country = Str ''France'', selected_category = Str ''ATP'',
      submitted = True, clear_pressed = False\<rparr>"

definition ui_clear :: ui_input where
  "ui_clear =
     \<lparr>selected_country = Str ''France'', selected_category = Str ''ATP'',
      submitted = False, clear_pressed = True\<rparr>"

section \<open>Facts about labels and cells\<close>

lemma index_of_None: "index_of x xs = None \<longleftrightarrow> x \<notin> set xs"
  by (induction xs) auto

lemma index_of_less: "index_of x xs = Some i \<Longrightarrow> i < length xs"
  by (induction xs arbitrary: i) (auto split: if_splits)

lemma index_of_nth: "index_of x xs = Some i \<Longrightarrow> xs ! i = x"
  by (induction xs arbitrary: i) (auto split: if_splits)

lemma index_of_map_of:
  "index_of c cs = Some i \<Longrightarrow> length r = length cs \<Longrightarrow> map_of (zip cs r) c = Some (r ! i)"
proof (induction cs arbitrary: i r)
  case Nil
  then show ?case by simp
next
  case (Cons a cs)
  then obtain x r' where r: "r = x # r'" by (cases r) auto
  show ?case
  proof (cases "c = a")
    case True
    with Cons.prems r show ?thesis by simp
  next
    case False
    with Cons.prems r obtain j where j: "index_of c cs = Some j" "i = Suc j"
      by auto
    with Cons.IH [of j r'] Cons.prems r False show ?thesis by simp
  qed
qed

lemma wf_df_row: "wf_df df \<Longrightarrow> r \<in> set (rows df) \<Longrightarrow> length r = length (columns df)"
  by (simp add: wf_df_def list_all_iff)

lemma select_eq_field:
  assumes "wf_df df" and "c \<in> set (columns df)"
  shows "\<exists>out. select_eq df c v = Inr out \<and> columns out = columns df
           \<and> rows out = filter (\<lambda>r. field df r c = Some v) (rows df)"
proof -
  from assms(2) obtain i where i: "index_of c (columns df) = Some i"
    using index_of_None [of c "columns df"] by (cases "index_of c (columns df)") auto
  have "filter (\<lambda>r. r ! i = v) (rows df) = filter (\<lambda>r. field df r c = Some v) (rows df)"
  proof (rule filter_cong [OF refl])
    fix r assume "r \<in> set (rows df)"
    then have "length r = length (columns df)" using assms(1) by (rule wf_df_row [rotated])
    with i have "field df r c = Some (r ! i)" by (simp add: field_def index_of_map_of)
    then show "(r ! i = v) = (field df r c = Some v)" by simp
  qed
  with i show ?thesis by (simp add: select_eq_def)
qed

lemma filtered_df_pass:
  "\<not> filters_applied st \<or> \<not> truthy (submitted_country st) \<or> df_empty df
     \<Longrightarrow> filtered_df df st = Inr df"
  by (auto simp: filtered_df_def)

lemma filtered_comp_pass:
  "\<not> filters_applied st \<or> \<not> truthy (submitted_category st) \<or> df_empty df
     \<Longrightarrow> filtered_comp df st = Inr df"
  by (auto simp: filtered_comp_def)

lemma filtered_df_select:
  assumes "wf_df df" and "''country'' \<in> set (columns df)"
    and "filters_applied st" and "truthy (submitted_country st)"
  shows "\<exists>out. filtered_df df st = Inr out \<and> columns out = columns df
           \<and> rows out = filter (\<lambda>r. field df r ''country'' = Some (submitted_country st)) (rows df)"
proof (cases "df_empty df")
  case True
  with assms(2) have "rows df = []" by (auto simp: df_empty_def)
  with True show ?thesis by (simp add: filtered_df_def)
next
  case False
  with assms(3,4) have "filtered_df df st = select_eq df ''country'' (submitted_country st)"
    by (simp add: filtered_df_def)
  with select_eq_field [OF assms(1,2)] show ?thesis by simp
qed

lemma filtered_comp_select:
  assumes "wf_df df" and "''category_name'' \<in> set (columns df)"
    and "filters_applied st" and "truthy (submitted_category st)"
  shows "\<exists>out. filtered_comp df st = Inr out \<and> columns out = columns df
           \<and> rows out =
               filter (\<lambda>r. field df r ''category_name'' = Some (submitted_category st)) (rows df)"
proof (cases "df_empty df")
  case True
  with assms(2) have "rows df = []" by (auto simp: df_empty_def)
  with True show ?thesis by (simp add: filtered_comp_def)
next
  case False
  with assms(3,4) have
    "filtered_comp df st = select_eq df ''category_name'' (submitted_category st)"
    by (simp add: filtered_comp_def)
  with select_eq_field [OF assms(1,2)] show ?thesis by simp
qed

section \<open>The filter engine: claims\<close>

text \<open>
  Claim C1, as the specification states it: with \<open>applied\<close> true and a stored value that is
  not absent, the filter returns exactly the rows whose field equals the stored value. The
  guard of the script tests the stored value for truth, so the empty string, which is a
  value and not \<^verbatim>\<open>None\<close>, switches the filter off: every row is returned, also one whose
  country is not the empty string.
\<close>

theorem filtered_df_empty_string_counterexample:
  "filtered_df
     \<lparr>columns = [''name'', ''country''], rows = [[Str ''Gasquet'', Str ''France'']]\<rparr>
     \<lparr>filters_applied = True, submitted_country = Str [], submitted_category = Null\<rparr>
   = Inr \<lparr>columns = [''name'', ''country''], rows = [[Str ''Gasquet'', Str ''France'']]\<rparr>
   \<and> field \<lparr>columns = [''name'', ''country''], rows = [[Str ''Gasquet'', Str ''France'']]\<rparr>
         [Str ''Gasquet'', Str ''France''] ''country'' = Some (Str ''France'')
   \<and> Str ''France'' \<noteq> Str []
   \<and> Str [] \<noteq> Null"
  by (simp add: filtered_df_def field_def)

text \<open>
  Claim C1, amended: for a frame with a \<^verbatim>\<open>country\<close> (resp. \<^verbatim>\<open>category_name\<close>) column
  and a state with \<open>applied\<close> true and a stored value that is true in Python's sense (not
  \<^verbatim>\<open>None\<close>, not the empty string, not zero), the filter returns, without an error, the
  frame under the same labels whose rows are exactly the rows of the input with that field
  equal to the stored value (equality of values: no case folding, no trimming), in the order
  of the input; when no row matches, the result has no rows. The input is a value and stays
  what it was.
\<close>

theorem filter_exact_match:
  assumes "wf_df df" and "filters_applied st"
  shows "(''country'' \<in> set (columns df) \<and> truthy (submitted_country st) \<longrightarrow>
           (\<exists>out. filtered_df df st = Inr out \<and> columns out = columns df
              \<and> rows out =
                  filter (\<lambda>r. field df r ''country'' = Some (submitted_country st)) (rows df)
              \<and> ((\<forall>r \<in> set (rows df). field df r ''country'' \<noteq> Some (submitted_country st))
                    \<longrightarrow> rows out = [])))
       \<and> (''category_name'' \<in> set (columns df) \<and> truthy (submitted_category st) \<longrightarrow>
           (\<exists>out. filtered_comp df st = Inr out \<and> columns out = columns df
              \<and> rows out =
                  filter (\<lambda>r. field df r ''category_name'' = Some (submitted_category st))
                    (rows df)
              \<and> ((\<forall>r \<in> set (rows df).
                      field df r ''category_name'' \<noteq> Some (submitted_category st))
                    \<longrightarrow> rows out = [])))"
proof (intro conjI impI)
  assume h: "''country'' \<in> set (columns df) \<and> truthy (submitted_country st)"
  from filtered_df_select [OF assms(1) _ assms(2)] h
  obtain out where out: "filtered_df df st = Inr out" "columns out = columns df"
    "rows out = filter (\<lambda>r. field df r ''country'' = Some (submitted_country st)) (rows df)"
    by blast
  from out(3) have
    "(\<forall>r \<in> set (rows df). field df r ''country'' \<noteq> Some (submitted_country st))
       \<longrightarrow> rows out = []"
    by (simp add: filter_empty_conv)
  with out show "\<exists>out. filtered_df df st = Inr out \<and> columns out = columns df
              \<and> rows out =
                  filter (\<lambda>r. field df r ''country'' = Some (submitted_country st)) (rows df)
              \<and> ((\<forall>r \<in> set (rows df). field df r ''country'' \<noteq> Some (submitted_country st))
                    \<longrightarrow> rows out = [])"
    by blast
next
  assume h: "''category_name'' \<in> set (columns df) \<and> truthy (submitted_category st)"
  from filtered_comp_select [OF assms(1) _ assms(2)] h
  obtain out where out: "filtered_comp df st = Inr out" "columns out = columns df"
    "rows out =
       filter (\<lambda>r. field df r ''category_name'' = Some (submitted_category st)) (rows df)"
    by blast
  from out(3) have
    "(\<forall>r \<in> set (rows df). field df r ''category_name'' \<noteq> Some (submitted_category st))
       \<longrightarrow> rows out = []"
    by (simp add: filter_empty_conv)
  with out show "\<exists>out. filtered_comp df st = Inr out \<and> columns out = columns df
              \<and> rows out =
                  filter (\<lambda>r. field df r ''category_name'' = Some (submitted_category st))
                    (rows df)
              \<and> ((\<forall>r \<in> set (rows df).
                      field df r ''category_name'' \<noteq> Some (submitted_category st))
                    \<longrightarrow> rows out = [])"
    by blast
qed

theorem filter_exact_match_witness:
  "wf_df example_ranked \<and> wf_df example_competitions
   \<and> filtered_df example_ranked (applied_state (Str ''France'') (Str ''ATP''))
       = Inr \<lparr>columns = [''competitor_id'', ''rank'', ''name'', ''country''],
              rows = [[Num 1, Num 1, Str ''Gasquet'', Str ''France''],
                      [Num 4, Null, Str ''Monfils'', Str ''France'']]\<rparr>
   \<and> filtered_comp example_competitions (applied_state (Str ''France'') (Str ''ATP''))
       = Inr \<lparr>columns = [''competition_id'', ''category_id'', ''category_name''],
              rows = [[Num 5, Num 1, Str ''ATP'']]\<rparr>
   \<and> filtered_df example_ranked (applied_state (Str ''Italy'') (Str ''ATP''))
       = Inr \<lparr>columns = [''competitor_id'', ''rank'', ''name'', ''country''], rows = []\<rparr>"
proof -
  have wf: "wf_df example_ranked" "wf_df example_competitions"
    by (simp_all add: wf_df_def example_ranked_def example_competitions_def)
  have ap: "filters_applied (applied_state c g)" for c g
    by (simp add: applied_state_def)
  show ?thesis
    using wf
      filter_exact_match [OF wf(1) ap, of "Str ''France''" "Str ''ATP''"]
      filter_exact_match [OF wf(2) ap, of "Str ''France''" "Str ''ATP''"]
      filter_exact_match [OF wf(1) ap, of "Str ''Italy''" "Str ''ATP''"]
    by (auto simp: applied_state_def example_ranked_def example_competitions_def field_def)
qed

text \<open>
  Claim C2: when \<open>applied\<close> is false, or the stored value of the filter is absent, or the
  frame has no rows, the filter returns its input as it is, whatever the state holds.
\<close>

theorem filter_identity:
  "(\<not> filters_applied st \<or> submitted_country st = Null \<or> rows df = []
      \<longrightarrow> filtered_df df st = Inr df)
   \<and> (\<not> filters_applied st \<or> submitted_category st = Null \<or> rows df = []
      \<longrightarrow> filtered_comp df st = Inr df)"
  by (auto simp: filtered_df_def filtered_comp_def df_empty_def)

theorem filter_identity_witness:
  "filtered_df example_ranked
     \<lparr>filters_applied = False, submitted_country = Str ''France'', submitted_category = Str ''ATP''\<rparr>
     = Inr example_ranked
   \<and> filtered_comp example_competitions
     \<lparr>filters_applied = False, submitted_country = Str ''France'', submitted_category = Str ''ATP''\<rparr>
     = Inr example_competitions
   \<and> filtered_df example_ranked (applied_state Null (Str ''ATP'')) = Inr example_ranked
   \<and> filtered_comp example_competitions (applied_state (Str ''France'') Null)
     = Inr example_competitions
   \<and> filtered_df \<lparr>columns = [''country''], rows = []\<rparr> (applied_state (Str ''France'') Null)
     = Inr \<lparr>columns = [''country''], rows = []\<rparr>"
  using
    filter_identity [of "\<lparr>filters_applied = False, submitted_country = Str ''France'',
                         submitted_category = Str ''ATP''\<rparr>" example_ranked]
    filter_identity [of "\<lparr>filters_applied = False, submitted_country = Str ''France'',
                         submitted_category = Str ''ATP''\<rparr>" example_competitions]
    filter_identity [of "applied_state Null (Str ''ATP'')" example_ranked]
    filter_identity [of "applied_state (Str ''France'') Null" example_competitions]
    filter_identity [of "applied_state (Str ''France'') Null"
                        "\<lparr>columns = [''country''], rows = []\<rparr>"]
  by (simp add: applied_state_def)

text \<open>
  Claim C10: with \<open>applied\<close> true and a stored country that is false in Python's sense
  (\<^verbatim>\<open>None\<close> or the empty string), the country filter returns its input as it is: the
  empty string is not looked for in the country column. The same holds for the category
  filter and a stored category that is \<^verbatim>\<open>None\<close> or the empty string.
\<close>

theorem filter_falsy_value:
  "(filters_applied st \<and> (submitted_country st = Null \<or> submitted_country st = Str [])
      \<longrightarrow> filtered_df df st = Inr df)
   \<and> (filters_applied st \<and> (submitted_category st = Null \<or> submitted_category st = Str [])
      \<longrightarrow> filtered_comp df st = Inr df)"
  by (auto simp: filtered_df_def filtered_comp_def)

theorem filter_falsy_value_witness:
  "filtered_df
     \<lparr>columns = [''name'', ''country''],
      rows = [[Str ''Gasquet'', Str ''France''], [Str ''Anon'', Str []]]\<rparr>
     (applied_state (Str []) (Str []))
   = Inr \<lparr>columns = [''name'', ''country''],
          rows = [[Str ''Gasquet'', Str ''France''], [Str ''Anon'', Str []]]\<rparr>
   \<and> filtered_comp example_competitions (applied_state (Str []) (Str []))
       = Inr example_competitions
   \<and> filtered_df example_ranked (applied_state Null Null) = Inr example_ranked
   \<and> filtered_comp example_competitions (applied_state Null Null) = Inr example_competitions"
  using
    filter_falsy_value [of "applied_state (Str []) (Str [])"
       "\<lparr>columns = [''name'', ''country''],
         rows = [[Str ''Gasquet'', Str ''France''], [Str ''Anon'', Str []]]\<rparr>"]
    filter_falsy_value [of "applied_state (Str []) (Str [])" example_competitions]
    filter_falsy_value [of "applied_state Null Null" example_ranked]
    filter_falsy_value [of "applied_state Null Null" example_competitions]
  by (simp add: applied_state_def)

section \<open>The filter state: claims\<close>

text \<open>
  Claim C9: applying sets \<open>applied\<close> and stores the two submitted values as they are;
  clearing resets the three entries to their defaults; in a run of the script a submitted
  form applies and the clear button clears. So after \<^verbatim>\<open>apply("France", "ATP")\<close> the country
  filter returns the rows whose country is \<^verbatim>\<open>France\<close> and no other, and after a
  following \<^verbatim>\<open>clear()\<close> it returns the whole input again.
\<close>

theorem apply_clear_transitions:
  "apply_filters c g st = \<lparr>filters_applied = True, submitted_country = c, submitted_category = g\<rparr>
   \<and> clear_filters st
       = \<lparr>filters_applied = False, submitted_country = Null, submitted_category = Null\<rparr>
   \<and> (submitted ui \<and> \<not> clear_pressed ui
        \<longrightarrow> sidebar ui st = apply_filters (selected_country ui) (selected_category ui) st)
   \<and> (clear_pressed ui \<longrightarrow> sidebar ui st = initial_state)
   \<and> (wf_df df \<and> ''country'' \<in> set (columns df) \<longrightarrow>
        (\<exists>out. filtered_df df (apply_filters (Str ''France'') (Str ''ATP'') st) = Inr out
           \<and> columns out = columns df
           \<and> rows out = filter (\<lambda>r. field df r ''country'' = Some (Str ''France'')) (rows df)))
   \<and> filtered_df df (clear_filters (apply_filters (Str ''France'') (Str ''ATP'') st)) = Inr df"
proof -
  have a: "apply_filters c g st
             = \<lparr>filters_applied = True, submitted_country = c, submitted_category = g\<rparr>"
    for c g
    by (simp add: apply_filters_def)
  have b: "clear_filters s
             = \<lparr>filters_applied = False, submitted_country = Null, submitted_category = Null\<rparr>"
    for s :: session_state
    by (simp add: clear_filters_def)
  have c: "submitted ui \<and> \<not> clear_pressed ui
        \<longrightarrow> sidebar ui st = apply_filters (selected_country ui) (selected_category ui) st"
    by (simp add: sidebar_def)
  have d: "clear_pressed ui \<longrightarrow> sidebar ui st = initial_state"
    by (simp add: sidebar_def Let_def b initial_state_def)
  have e: "wf_df df \<and> ''country'' \<in> set (columns df) \<longrightarrow>
        (\<exists>out. filtered_df df (apply_filters (Str ''France'') (Str ''ATP'') st) = Inr out
           \<and> columns out = columns df
           \<and> rows out = filter (\<lambda>r. field df r ''country'' = Some (Str ''France'')) (rows df))"
  proof
    assume h: "wf_df df \<and> ''country'' \<in> set (columns df)"
    have "filters_applied (apply_filters (Str ''France'') (Str ''ATP'') st)"
      and "truthy (submitted_country (apply_filters (Str ''France'') (Str ''ATP'') st))"
      and "submitted_country (apply_filters (Str ''France'') (Str ''ATP'') st) = Str ''France''"
      by (simp_all add: a)
    with filtered_df_select [of df "apply_filters (Str ''France'') (Str ''ATP'') st"] h
    show "\<exists>out. filtered_df df (apply_filters (Str ''France'') (Str ''ATP'') st) = Inr out
           \<and> columns out = columns df
           \<and> rows out = filter (\<lambda>r. field df r ''country'' = Some (Str ''France'')) (rows df)"
      by simp
  qed
  have f: "filtered_df df (clear_filters (apply_filters (Str ''France'') (Str ''ATP'') st)) = Inr df"
    by (simp add: b filtered_df_def)
  from a b c d e f show ?thesis by blast
qed

theorem apply_clear_transitions_witness:
  "wf_df example_ranked
   \<and> filtered_df example_ranked (apply_filters (Str ''France'') (Str ''ATP'') initial_state)
       = Inr \<lparr>columns = [''competitor_id'', ''rank'', ''name'', ''country''],
              rows = [[Num 1, Num 1, Str ''Gasquet'', Str ''France''],
                      [Num 4, Null, Str ''Monfils'', Str ''France'']]\<rparr>
   \<and> filtered_df example_ranked
         (clear_filters (apply_filters (Str ''France'') (Str ''ATP'') initial_state))
       = Inr example_ranked
   \<and> sidebar \<lparr>selected_country = Str ''France'', selected_category = Str ''ATP'',
               submitted = True, clear_pressed = False\<rparr> initial_state
       = applied_state (Str ''France'') (Str ''ATP'')
   \<and> sidebar \<lparr>selected_country = Str ''France'', selected_category = Str ''ATP'',
               submitted = False, clear_pressed = True\<rparr>
         (applied_state (Str ''Spain'') (Str ''WTA''))
       = initial_state"
proof -
  have wf: "wf_df example_ranked"
    by (simp add: wf_df_def example_ranked_def)
  show ?thesis
    using wf
      apply_clear_transitions [of "Str ''France''" "Str ''ATP''" initial_state
        "\<lparr>selected_country = Str ''France'', selected_category = Str ''ATP'',
          submitted = True, clear_pressed = False\<rparr>" example_ranked]
      apply_clear_transitions [of "Str ''France''" "Str ''ATP''"
        "applied_state (Str ''Spain'') (Str ''WTA'')"
        "\<lparr>selected_country = Str ''France'', selected_category = Str ''ATP'',
          submitted = False, clear_pressed = True\<rparr>" example_ranked]
    by (auto simp: applied_state_def example_ranked_def field_def initial_state_def)
qed


section \<open>Facts about the join\<close>

lemma index_of_Some: "x \<in> set xs \<Longrightarrow> \<exists>i. index_of x xs = Some i"
  using index_of_None [of x xs] by (cases "index_of x xs") auto

lemma field_index:
  assumes "wf_df df" and "r \<in> set (rows df)" and "index_of c (columns df) = Some i"
  shows "field df r c = Some (r ! i)"
  using assms wf_df_row [of df r] by (simp add: field_def index_of_map_of)

lemma remove1_drop_nth: "index_of x xs = Some i \<Longrightarrow> remove1 x xs = drop_nth i xs"
proof (induction xs arbitrary: i)
  case Nil
  then show ?case by simp
next
  case (Cons a xs)
  show ?case
  proof (cases "x = a")
    case True
    with Cons.prems show ?thesis by (simp add: drop_nth_def)
  next
    case False
    with Cons.prems obtain j where j: "index_of x xs = Some j" "i = Suc j" by auto
    from Cons.IH [OF j(1)] False j(2) show ?thesis by (simp add: drop_nth_def)
  qed
qed

lemma length_drop_nth: "i < length xs \<Longrightarrow> length (drop_nth i xs) = length xs - 1"
  by (simp add: drop_nth_def)

lemma set_drop_nth: "set (drop_nth i xs) \<subseteq> set xs"
  unfolding drop_nth_def using set_take_subset [of i xs] set_drop_subset [of "Suc i" xs]
  by auto

lemma shift53_small: "m < 2 ^ 53 \<Longrightarrow> shift53 m = 0"
  by (simp add: shift53.simps)

lemma round53_small: "m < 2 ^ 53 \<Longrightarrow> round53 m = m"
  by (simp add: round53_def shift53_small)

lemma round53_limit: "round53 (2 ^ 53) = 2 ^ 53"
proof -
  have "shift53 (2 ^ 53) = Suc (shift53 (2 ^ 52))"
    by (subst shift53.simps) simp
  also have "shift53 (2 ^ 52) = 0" by (rule shift53_small) simp
  finally have k: "shift53 (2 ^ 53) = 1" by simp
  show ?thesis unfolding round53_def k Let_def by simp
qed

lemma to_float64_exact:
  assumes "\<bar>n\<bar> \<le> 2 ^ 53"
  shows "to_float64 n = n"
proof -
  consider "n < 0" "- n < 2 ^ 53" | "n < 0" "- n = 2 ^ 53" | "0 \<le> n" "n < 2 ^ 53"
    | "0 \<le> n" "n = 2 ^ 53"
    using assms by linarith
  then show ?thesis
  proof cases
    case 1
    then show ?thesis by (simp add: to_float64_def round53_small)
  next
    case 2
    then have "round53 (- n) = - n" using round53_limit by simp
    with 2 show ?thesis by (simp add: to_float64_def)
  next
    case 3
    then show ?thesis by (simp add: to_float64_def round53_small)
  next
    case 4
    then show ?thesis using round53_limit by (simp add: to_float64_def)
  qed
qed

lemma as_float64_exact:
  assumes "exact_numbers df" and "r \<in> set (rows df)" and "v \<in> set r"
  shows "as_float64 v = v"
proof (cases v)
  case (Num n)
  from assms have "case v of Num n \<Rightarrow> \<bar>n\<bar> \<le> 2 ^ 53 | _ \<Rightarrow> True"
    unfolding exact_numbers_def list_all_iff by blast
  with Num have "\<bar>n\<bar> \<le> 2 ^ 53" by simp
  with Num show ?thesis by (simp add: as_float64_def to_float64_exact)
qed (simp_all add: as_float64_def)

lemma key_eq_exact: "as_float64 a = a \<Longrightarrow> as_float64 b = b \<Longrightarrow> key_eq dl dr a b = (a = b)"
  by (simp add: key_eq_def)

lemma map_snd_zip_cond:
  "length js = length vs \<Longrightarrow> \<forall>v \<in> set vs. f v = v \<Longrightarrow>
     map (\<lambda>(j, v). if P j then f v else v) (zip js vs) = vs"
  by (induction js vs rule: list_induct2) auto

lemma upcast_cells_exact:
  assumes "length cells = length (columns right) - 1" and "ri < length (columns right)"
    and "\<forall>v \<in> set cells. as_float64 v = v"
  shows "upcast_cells unmatched right ri cells = cells"
proof -
  have "length (drop_nth ri [0..<length (columns right)]) = length cells"
    using assms(1,2) by (simp add: length_drop_nth)
  from map_snd_zip_cond [OF this assms(3)] show ?thesis
    by (simp add: upcast_cells_def)
qed


lemma filter_distinct_key:
  "distinct (map f xs) \<Longrightarrow>
     filter (\<lambda>x. f x = v) xs = [] \<or> (\<exists>m \<in> set xs. f m = v \<and> filter (\<lambda>x. f x = v) xs = [m])"
proof (induction xs)
  case Nil
  then show ?case by simp
next
  case (Cons a xs)
  show ?case
  proof (cases "f a = v")
    case True
    with Cons.prems have "v \<notin> f ` set xs" by simp
    then have "\<forall>x \<in> set xs. f x \<noteq> v" by blast
    then have "filter (\<lambda>x. f x = v) xs = []" by (simp add: filter_empty_conv)
    with True show ?thesis by simp
  next
    case False
    with Cons show ?thesis by auto
  qed
qed

lemma merge_row_single:
  assumes "distinct (map (\<lambda>r. r ! ri) rrows)"
    and "\<forall>r \<in> set rrows. eq (l ! li) (r ! ri) = (r ! ri = l ! li)"
    and "\<forall>r \<in> set rrows. conv (drop_nth ri r) = drop_nth ri r"
  shows "\<exists>out. merge_row eq conv li ri width rrows l = [out] \<and> joined li ri width rrows l out"
proof -
  have f: "filter (\<lambda>r. eq (l ! li) (r ! ri)) rrows = filter (\<lambda>r. r ! ri = l ! li) rrows"
    using assms(2) by (intro filter_cong refl) simp
  from filter_distinct_key [OF assms(1), of "l ! li"]
  consider "filter (\<lambda>r. r ! ri = l ! li) rrows = []"
    | m where "m \<in> set rrows" "m ! ri = l ! li" "filter (\<lambda>r. r ! ri = l ! li) rrows = [m]"
    by blast
  then show ?thesis
  proof cases
    case 1
    then have "\<forall>r \<in> set rrows. r ! ri \<noteq> l ! li" by (simp add: filter_empty_conv)
    with 1 f show ?thesis by (simp add: merge_row_def joined_def)
  next
    case 2
    from 2(1) assms(3) have c: "conv (drop_nth ri m) = drop_nth ri m" by simp
    from 2(3) f c have "merge_row eq conv li ri width rrows l = [l @ drop_nth ri m]"
      by (simp add: merge_row_def)
    moreover from 2 have "joined li ri width rrows l (l @ drop_nth ri m)"
      by (auto simp: joined_def)
    ultimately show ?thesis by blast
  qed
qed

lemma concat_singletons:
  "\<forall>x \<in> set xs. \<exists>y. f x = [y] \<and> P x y \<Longrightarrow>
     length (concat (map f xs)) = length xs
     \<and> (\<forall>i < length xs. P (xs ! i) (concat (map f xs) ! i))"
proof (induction xs)
  case Nil
  then show ?case by simp
next
  case (Cons a xs)
  then obtain y where y: "f a = [y]" "P a y" by auto
  from Cons have ih: "length (concat (map f xs)) = length xs"
    "\<forall>i < length xs. P (xs ! i) (concat (map f xs) ! i)" by auto
  have "P ((a # xs) ! i) (concat (map f (a # xs)) ! i)" if "i < length (a # xs)" for i
    using that y ih by (cases i) auto
  with y ih(1) show ?case by simp
qed

lemma distinct_map_Some: "distinct (map (\<lambda>x. Some (g x)) xs) \<Longrightarrow> distinct (map g xs)"
  by (induction xs) auto

lemma pd_merge_rows:
  assumes wf: "wf_df left" "wf_df right"
    and ex: "exact_numbers left" "exact_numbers right"
    and li: "index_of key (columns left) = Some li"
    and ri: "index_of key (columns right) = Some ri"
    and km: "keys_mergeable (column left key) (column right key)"
    and dl: "distinct (merged_columns (columns left) (columns right) key)"
    and dk: "distinct (map (\<lambda>r. r ! ri) (rows right))"
  shows "\<exists>out. pd_merge left right key = Inr out
           \<and> columns out = merged_columns (columns left) (columns right) key
           \<and> length (rows out) = length (rows left)
           \<and> (\<forall>i < length (rows left).
                joined li ri (length (columns right) - 1) (rows right)
                  (rows left ! i) (rows out ! i))"
proof -
  let ?eq = "key_eq (dtype_of (column left key)) (dtype_of (column right key))"
  let ?u = "list_ex (\<lambda>l. \<not> list_ex (\<lambda>r. ?eq (l ! li) (r ! ri)) (rows right)) (rows left)"
  let ?f = "merge_row ?eq (upcast_cells ?u right ri) li ri (length (columns right) - 1) (rows right)"
  from li have li_less: "li < length (columns left)" by (rule index_of_less)
  from ri have ri_less: "ri < length (columns right)" by (rule index_of_less)
  have rcell: "as_float64 v = v" if "r \<in> set (rows right)" "v \<in> set r" for r v
    using as_float64_exact [OF ex(2) that] .
  have lcell: "as_float64 v = v" if "l \<in> set (rows left)" "v \<in> set l" for l v
    using as_float64_exact [OF ex(1) that] .
  have one: "\<exists>out. ?f l = [out]
          \<and> joined li ri (length (columns right) - 1) (rows right) l out"
    if l: "l \<in> set (rows left)" for l
  proof (rule merge_row_single [OF dk])
    from l wf(1) have "length l = length (columns left)" by (simp add: wf_df_row)
    with li_less have "l ! li \<in> set l" by simp
    with l have a: "as_float64 (l ! li) = l ! li" by (rule lcell)
    show "\<forall>r \<in> set (rows right). ?eq (l ! li) (r ! ri) = (r ! ri = l ! li)"
    proof
      fix r assume r: "r \<in> set (rows right)"
      with wf(2) have "length r = length (columns right)" by (simp add: wf_df_row)
      with ri_less have "r ! ri \<in> set r" by simp
      with r have "as_float64 (r ! ri) = r ! ri" by (rule rcell)
      with a have "?eq (l ! li) (r ! ri) = (l ! li = r ! ri)" by (rule key_eq_exact)
      then show "?eq (l ! li) (r ! ri) = (r ! ri = l ! li)" by auto
    qed
    show "\<forall>r \<in> set (rows right).
            upcast_cells ?u right ri (drop_nth ri r) = drop_nth ri r"
    proof
      fix r assume r: "r \<in> set (rows right)"
      with wf(2) have len: "length r = length (columns right)" by (simp add: wf_df_row)
      with ri_less have "length (drop_nth ri r) = length (columns right) - 1"
        by (simp add: length_drop_nth)
      moreover have "\<forall>v \<in> set (drop_nth ri r). as_float64 v = v"
        using set_drop_nth [of ri r] rcell [OF r] by blast
      ultimately show "upcast_cells ?u right ri (drop_nth ri r) = drop_nth ri r"
        using ri_less by (intro upcast_cells_exact) simp_all
    qed
  qed
  then have "\<forall>l \<in> set (rows left). \<exists>out. ?f l = [out]
          \<and> joined li ri (length (columns right) - 1) (rows right) l out" by blast
  from concat_singletons [where f = ?f and xs = "rows left", OF this]
  have rows: "length (concat (map ?f (rows left))) = length (rows left)"
    "\<forall>i < length (rows left).
        joined li ri (length (columns right) - 1) (rows right)
          (rows left ! i) (concat (map ?f (rows left)) ! i)"
    by simp_all
  from dl have d2: "distinct (map (left_label (columns right) key) (columns left))"
    "distinct (map (right_label (columns left)) (remove1 key (columns right)))"
    by (simp_all add: merged_columns_def)
  have "pd_merge left right key =
          Inr \<lparr>columns = merged_columns (columns left) (columns right) key,
               rows = concat (map ?f (rows left))\<rparr>"
    using li ri km d2 by (simp add: pd_merge_def Let_def merged_columns_def)
  with rows show ?thesis by simp
qed


lemma nth_drop_nth:
  "j < length xs - 1 \<Longrightarrow> drop_nth i xs ! j = xs ! (if j < i then j else Suc j)"
  by (auto simp: drop_nth_def nth_append min_def)

lemma map_of_zip_left:
  assumes "distinct (ls @ rs)" and "length l = length ls" and "length rr = length rs"
    and "j < length ls"
  shows "map_of (zip (ls @ rs) (l @ rr)) (ls ! j) = Some (l ! j)"
proof -
  from assms have "map_of (zip (ls @ rs) (l @ rr)) ((ls @ rs) ! j) = Some ((l @ rr) ! j)"
    by (intro map_of_zip_nth) simp_all
  with assms(2,4) show ?thesis by (simp add: nth_append)
qed

lemma map_of_zip_right:
  assumes "distinct (ls @ rs)" and "length l = length ls" and "length rr = length rs"
    and "j < length rs"
  shows "map_of (zip (ls @ rs) (l @ rr)) (rs ! j) = Some (rr ! j)"
proof -
  from assms have
    "map_of (zip (ls @ rs) (l @ rr)) ((ls @ rs) ! (length ls + j)) = Some ((l @ rr) ! (length ls + j))"
    by (intro map_of_zip_nth) simp_all
  with assms(2) show ?thesis by (simp add: nth_append)
qed

text \<open>The cells of a joined row, read by the labels of the result.\<close>

lemma joined_fields:
  assumes wf: "wf_df left" "wf_df right"
    and li: "index_of key (columns left) = Some li"
    and ri: "index_of key (columns right) = Some ri"
    and dl: "distinct (merged_columns (columns left) (columns right) key)"
    and cols: "columns out = merged_columns (columns left) (columns right) key"
    and l: "l \<in> set (rows left)"
    and j: "joined li ri (length (columns right) - 1) (rows right) l orow"
  shows "\<forall>c \<in> set (columns left).
           field out orow (left_label (columns right) key c) = field left l c"
    and "(\<exists>r \<in> set (rows right). field right r key = field left l key
            \<and> (\<forall>c \<in> set (columns right). c \<noteq> key \<longrightarrow>
                  field out orow (right_label (columns left) c) = field right r c))
         \<or> ((\<forall>r \<in> set (rows right). field right r key \<noteq> field left l key)
            \<and> (\<forall>c \<in> set (columns right). c \<noteq> key \<longrightarrow>
                  field out orow (right_label (columns left) c) = Some Null))"
proof -
  let ?ls = "map (left_label (columns right) key) (columns left)"
  let ?rc = "remove1 key (columns right)"
  let ?rs = "map (right_label (columns left)) ?rc"
  let ?rr = "drop (length l) orow"
  from ri have ri_less: "ri < length (columns right)" by (rule index_of_less)
  from ri have rc: "?rc = drop_nth ri (columns right)" by (rule remove1_drop_nth)
  with ri_less have len_rc: "length ?rc = length (columns right) - 1"
    by (simp add: length_drop_nth)
  from wf(1) have dcl: "distinct (columns left)" by (simp add: wf_df_def)
  from wf(2) have dcr: "distinct (columns right)" by (simp add: wf_df_def)
  from l wf(1) have len_l: "length l = length (columns left)" by (simp add: wf_df_row)
  from j have tk: "take (length l) orow = l" by (simp add: joined_def)
  then have orow: "orow = l @ ?rr" by (metis append_take_drop_id)
  from dl have d: "distinct (?ls @ ?rs)" by (simp add: merged_columns_def)
  have fl: "field left l key = Some (l ! li)" using field_index [OF wf(1) l li] .
  have fr: "field right r key = Some (r ! ri)" if "r \<in> set (rows right)" for r
    using field_index [OF wf(2) that ri] .
  have len_rr: "length ?rr = length ?rs"
  proof -
    from j consider r where "r \<in> set (rows right)" "?rr = drop_nth ri r"
      | "?rr = replicate (length (columns right) - 1) Null"
      by (auto simp: joined_def)
    then show ?thesis
    proof cases
      case 1
      from 1(1) wf(2) have "length r = length (columns right)" by (simp add: wf_df_row)
      with 1(2) ri_less len_rc show ?thesis by (simp add: length_drop_nth)
    next
      case 2
      with len_rc show ?thesis by simp
    qed
  qed
  have out_field: "field out orow c = map_of (zip (?ls @ ?rs) (l @ ?rr)) c" for c
    using cols orow by (simp add: field_def merged_columns_def)
  show "\<forall>c \<in> set (columns left).
           field out orow (left_label (columns right) key c) = field left l c"
  proof
    fix c assume "c \<in> set (columns left)"
    then obtain p where p: "p < length (columns left)" "columns left ! p = c"
      by (auto simp: in_set_conv_nth)
    from p have lab: "?ls ! p = left_label (columns right) key c" by simp
    from p have "p < length ?ls" by simp
    from map_of_zip_left [OF d _ len_rr this] len_l
    have "map_of (zip (?ls @ ?rs) (l @ ?rr)) (?ls ! p) = Some (l ! p)" by simp
    with lab have a: "field out orow (left_label (columns right) key c) = Some (l ! p)"
      by (simp add: out_field)
    from map_of_zip_nth [of "columns left" l p] dcl len_l p
    have "field left l c = Some (l ! p)" by (simp add: field_def)
    with a show "field out orow (left_label (columns right) key c) = field left l c" by simp
  qed
  have right_cell: "field out orow (right_label (columns left) c) = Some (?rr ! q)
                    \<and> q < length ?rc \<and> ?rc ! q = c"
    if "c \<in> set (columns right)" "c \<noteq> key"
      and q: "q < length ?rc" "?rc ! q = c" for c q
  proof -
    from q have lab: "?rs ! q = right_label (columns left) c" by simp
    from q have "q < length ?rs" by simp
    from map_of_zip_right [OF d _ len_rr this] len_l
    have "map_of (zip (?ls @ ?rs) (l @ ?rr)) (?rs ! q) = Some (?rr ! q)" by simp
    with lab q show ?thesis by (simp add: out_field)
  qed
  have pos: "\<exists>q. q < length ?rc \<and> ?rc ! q = c" if "c \<in> set (columns right)" "c \<noteq> key" for c
  proof -
    from that have "c \<in> set ?rc" by simp
    then show ?thesis by (auto simp: in_set_conv_nth)
  qed
  from j consider
    r where "r \<in> set (rows right)" "r ! ri = l ! li" "?rr = drop_nth ri r"
    | "\<forall>r \<in> set (rows right). r ! ri \<noteq> l ! li"
      "?rr = replicate (length (columns right) - 1) Null"
    by (auto simp: joined_def)
  then show "(\<exists>r \<in> set (rows right). field right r key = field left l key
            \<and> (\<forall>c \<in> set (columns right). c \<noteq> key \<longrightarrow>
                  field out orow (right_label (columns left) c) = field right r c))
         \<or> ((\<forall>r \<in> set (rows right). field right r key \<noteq> field left l key)
            \<and> (\<forall>c \<in> set (columns right). c \<noteq> key \<longrightarrow>
                  field out orow (right_label (columns left) c) = Some Null))"
  proof cases
    case 1
    from 1(1) wf(2) have len_r: "length r = length (columns right)" by (simp add: wf_df_row)
    from 1(1,2) fl fr have k: "field right r key = field left l key" by simp
    have "field out orow (right_label (columns left) c) = field right r c"
      if c: "c \<in> set (columns right)" "c \<noteq> key" for c
    proof -
      from pos [OF c] obtain q where q: "q < length ?rc" "?rc ! q = c" by blast
      from right_cell [OF c q] have
        a: "field out orow (right_label (columns left) c) = Some (?rr ! q)" by simp
      let ?p = "if q < ri then q else Suc q"
      from q len_rc have q1: "q < length (columns right) - 1" by simp
      then have p_less: "?p < length (columns right)" by auto
      from q1 have "drop_nth ri (columns right) ! q = columns right ! ?p"
        by (rule nth_drop_nth)
      with q rc have cp: "columns right ! ?p = c" by simp
      from q1 len_r have "drop_nth ri r ! q = r ! ?p"
        by (intro nth_drop_nth) simp
      with 1(3) have b: "?rr ! q = r ! ?p" by simp
      from map_of_zip_nth [of "columns right" r ?p] dcr len_r p_less cp
      have "field right r c = Some (r ! ?p)" by (simp add: field_def)
      with a b show ?thesis by simp
    qed
    with k 1(1) show ?thesis by blast
  next
    case 2
    from 2(1) fl fr have k: "\<forall>r \<in> set (rows right). field right r key \<noteq> field left l key"
      by simp
    have "field out orow (right_label (columns left) c) = Some Null"
      if c: "c \<in> set (columns right)" "c \<noteq> key" for c
    proof -
      from pos [OF c] obtain q where q: "q < length ?rc" "?rc ! q = c" by blast
      from right_cell [OF c q] have
        a: "field out orow (right_label (columns left) c) = Some (?rr ! q)" by simp
      from q len_rc 2(2) have "?rr ! q = Null" by simp
      with a show ?thesis by simp
    qed
    with k show ?thesis by blast
  qed
qed


section \<open>The join engine: claims\<close>

text \<open>
  Claim C3, as the specification states it: for all non-empty inputs that both have the key
  column, the join has exactly as many rows as \<open>left\<close>, each row of \<open>left\<close> appearing once.
  The merge of pandas pairs a row of \<open>left\<close> with every row of \<open>right\<close> that has its key:
  one ranking and two competitor rows with the same \<^verbatim>\<open>competitor_id\<close> give two rows. And
  the merge refuses key columns of incompatible dtypes: an integer \<^verbatim>\<open>competitor_id\<close> on the
  left and a string one on the right raise \<^verbatim>\<open>ValueError\<close>, so that there is no result.
\<close>

theorem joinLeft_duplicate_key_counterexample:
  "joinLeft
     \<lparr>columns = [''competitor_id'', ''rank''], rows = [[Num 7, Num 1]]\<rparr>
     \<lparr>columns = [''competitor_id'', ''name''],
      rows = [[Num 7, Str ''Gasquet''], [Num 7, Str ''Monfils'']]\<rparr>
     ''competitor_id''
   = Inr \<lparr>columns = [''competitor_id'', ''rank'', ''name''],
          rows = [[Num 7, Num 1, Str ''Gasquet''], [Num 7, Num 1, Str ''Monfils'']]\<rparr>
   \<and> length (rows \<lparr>columns = [''competitor_id'', ''rank''], rows = [[Num 7, Num 1]]\<rparr>) = 1
   \<and> length [[Num 7, Num 1, Str ''Gasquet''], [Num 7, Num 1, Str ''Monfils'']] = 2
   \<and> joinLeft
       \<lparr>columns = [''competitor_id'', ''rank''], rows = [[Num 1, Num 1]]\<rparr>
       \<lparr>columns = [''competitor_id'', ''name''], rows = [[Str ''1'', Str ''Gasquet'']]\<rparr>
       ''competitor_id''
     = Inl (ValueError ''competitor_id'')"
  by code_simp

text \<open>
  Claim C3, amended: for all non-empty, well-formed inputs \<open>left\<close> and \<open>right\<close> that both
  have the key column, whose numbers \<^verbatim>\<open>float64\<close> holds exactly, whose key columns pass the
  dtype check of the merge, whose labels stay distinct under the suffixes, and where no two
  rows of \<open>right\<close> have the same key, the join succeeds; its labels are those of \<open>left\<close>
  followed by those of \<open>right\<close> without the key (shared labels with \<^verbatim>\<open>_x\<close> and \<^verbatim>\<open>_y\<close>); it
  has exactly as many rows as \<open>left\<close>; its row number \<open>i\<close> starts with the cells of row
  \<open>i\<close> of \<open>left\<close> (so each row of \<open>left\<close> appears once, in the order of \<open>left\<close>), and every
  field of that row is found in it under its label; the fields of \<open>right\<close> are, under their
  labels, those of the one row of \<open>right\<close> that has the same key, or missing when \<open>right\<close>
  has no such row (an integer column of \<open>right\<close> is then stored as \<^verbatim>\<open>float64\<close>, and its
  numbers keep their values); rows of \<open>right\<close> whose key is not in \<open>left\<close> do not appear.
\<close>

theorem joinLeft_unique_key:
  assumes "wf_df left" and "wf_df right"
    and "\<not> df_empty left" and "\<not> df_empty right"
    and "key \<in> set (columns left)" and "key \<in> set (columns right)"
    and "distinct (map (\<lambda>r. field right r key) (rows right))"
    and "exact_numbers left" and "exact_numbers right"
    and "keys_mergeable (column left key) (column right key)"
    and "distinct (merged_columns (columns left) (columns right) key)"
  shows "\<exists>out. joinLeft left right key = Inr out
           \<and> columns out = merged_columns (columns left) (columns right) key
           \<and> length (rows out) = length (rows left)
           \<and> (\<forall>i < length (rows left).
                take (length (columns left)) (rows out ! i) = rows left ! i
                \<and> (\<forall>c \<in> set (columns left).
                      field out (rows out ! i) (left_label (columns right) key c)
                        = field left (rows left ! i) c)
                \<and> ((\<exists>r \<in> set (rows right).
                       field right r key = field left (rows left ! i) key
                       \<and> (\<forall>c \<in> set (columns right). c \<noteq> key \<longrightarrow>
                             field out (rows out ! i) (right_label (columns left) c)
                               = field right r c))
                   \<or> ((\<forall>r \<in> set (rows right).
                          field right r key \<noteq> field left (rows left ! i) key)
                       \<and> (\<forall>c \<in> set (columns right). c \<noteq> key \<longrightarrow>
                             field out (rows out ! i) (right_label (columns left) c)
                               = Some Null))))"
proof -
  from index_of_Some [OF assms(5)] obtain li where li: "index_of key (columns left) = Some li"
    by (rule exE)
  from index_of_Some [OF assms(6)] obtain ri where ri: "index_of key (columns right) = Some ri"
    by (rule exE)
  have "map (\<lambda>r. field right r key) (rows right) = map (\<lambda>r. Some (r ! ri)) (rows right)"
    using field_index [OF assms(2) _ ri] by simp
  with assms(7) have dk: "distinct (map (\<lambda>r. r ! ri) (rows right))"
    by (simp add: distinct_map_Some)
  from pd_merge_rows [OF assms(1,2,8,9) li ri assms(10,11) dk] obtain out where out:
    "pd_merge left right key = Inr out"
    "columns out = merged_columns (columns left) (columns right) key"
    "length (rows out) = length (rows left)"
    "\<forall>i < length (rows left).
        joined li ri (length (columns right) - 1) (rows right) (rows left ! i) (rows out ! i)"
    by blast
  from out(1) assms(3,4) have j: "joinLeft left right key = Inr out"
    by (simp add: joinLeft_def)
  have "take (length (columns left)) (rows out ! i) = rows left ! i
        \<and> (\<forall>c \<in> set (columns left).
              field out (rows out ! i) (left_label (columns right) key c)
                = field left (rows left ! i) c)
        \<and> ((\<exists>r \<in> set (rows right).
               field right r key = field left (rows left ! i) key
               \<and> (\<forall>c \<in> set (columns right). c \<noteq> key \<longrightarrow>
                     field out (rows out ! i) (right_label (columns left) c) = field right r c))
           \<or> ((\<forall>r \<in> set (rows right). field right r key \<noteq> field left (rows left ! i) key)
               \<and> (\<forall>c \<in> set (columns right). c \<noteq> key \<longrightarrow>
                     field out (rows out ! i) (right_label (columns left) c) = Some Null)))"
    if i: "i < length (rows left)" for i
  proof -
    let ?l = "rows left ! i"
    from i have mem: "?l \<in> set (rows left)" by simp
    then have len: "length ?l = length (columns left)" using assms(1) by (simp add: wf_df_row)
    from out(4) i have
      jn: "joined li ri (length (columns right) - 1) (rows right) ?l (rows out ! i)"
      by blast
    from jn len have t: "take (length (columns left)) (rows out ! i) = ?l"
      by (simp add: joined_def)
    note f = joined_fields [OF assms(1,2) li ri assms(11) out(2) mem jn]
    from t f(1) f(2) show ?thesis by (intro conjI)
  qed
  with j out(2,3) show ?thesis by blast
qed

theorem joinLeft_unique_key_witness:
  "joinLeft
     \<lparr>columns = [''competitor_id'', ''rank'', ''name''],
      rows = [[Num 1, Num 1, Str ''R. Gasquet''], [Num 2, Num 2, Str ''R. Nadal''],
              [Num 5, Num 3, Str ''G. Monfils'']]\<rparr>
     \<lparr>columns = [''competitor_id'', ''name'', ''country'', ''age''],
      rows = [[Num 2, Str ''Nadal'', Str ''Spain'', Num 38],
              [Num 1, Str ''Gasquet'', Str ''France'', Num 39],
              [Num 9, Str ''Anon'', Null, Num 20]]\<rparr>
     ''competitor_id''
   = Inr \<lparr>columns = [''competitor_id'', ''rank'', ''name_x'', ''name_y'', ''country'', ''age''],
          rows = [[Num 1, Num 1, Str ''R. Gasquet'', Str ''Gasquet'', Str ''France'', Num 39],
                  [Num 2, Num 2, Str ''R. Nadal'', Str ''Nadal'', Str ''Spain'', Num 38],
                  [Num 5, Num 3, Str ''G. Monfils'', Null, Null, Null]]\<rparr>"
  (is "joinLeft ?L ?R ?k = ?res")
proof -
  have h: "wf_df ?L" "wf_df ?R" "\<not> df_empty ?L" "\<not> df_empty ?R"
    "?k \<in> set (columns ?L)" "?k \<in> set (columns ?R)"
    "distinct (map (\<lambda>r. field ?R r ?k) (rows ?R))"
    "exact_numbers ?L" "exact_numbers ?R"
    "keys_mergeable (column ?L ?k) (column ?R ?k)"
    "distinct (merged_columns (columns ?L) (columns ?R) ?k)"
    by (simp_all add: wf_df_def df_empty_def field_def exact_numbers_def column_def
        keys_mergeable_def keys_clash_def dtype_of_def merged_columns_def left_label_def
        right_label_def)
  have e: "joinLeft ?L ?R ?k = ?res" by code_simp
  from joinLeft_unique_key [OF h] e show ?thesis by simp
qed


text \<open>
  Claim C4, as the specification states it: the join of a non-empty \<open>left\<close> with an empty
  \<open>right\<close> is \<open>left\<close> with the columns of \<open>right\<close> filled with nulls, one row for each row
  of \<open>left\<close>. The script does not merge when a side is empty: the result is the empty
  frame, with no row.
\<close>

theorem joinLeft_empty_right_counterexample:
  "joinLeft \<lparr>columns = [''competitor_id'', ''rank''], rows = [[Num 7, Num 1]]\<rparr>
     DataFrame ''competitor_id''
   = Inr \<lparr>columns = [], rows = []\<rparr>
   \<and> \<not> df_empty \<lparr>columns = [''competitor_id'', ''rank''], rows = [[Num 7, Num 1]]\<rparr>
   \<and> length (rows \<lparr>columns = [''competitor_id'', ''rank''], rows = [[Num 7, Num 1]]\<rparr>) = 1"
  by (simp add: joinLeft_def df_empty_def DataFrame_def)

text \<open>
  Claim C4, amended: for any key, the join of an empty frame with \<open>right\<close> is the empty
  result, and the join of \<open>left\<close> with an empty frame is the empty result as well (no
  columns and no rows), whether \<open>left\<close> is empty or not.
\<close>

theorem joinLeft_empty_side:
  assumes "df_empty e"
  shows "joinLeft e right key = Inr DataFrame \<and> joinLeft left e key = Inr DataFrame
         \<and> columns DataFrame = [] \<and> rows DataFrame = []"
  using assms by (simp add: joinLeft_def DataFrame_def)

theorem joinLeft_empty_side_witness:
  "df_empty DataFrame
   \<and> joinLeft DataFrame example_ranked ''competitor_id'' = Inr DataFrame
   \<and> joinLeft example_ranked DataFrame ''competitor_id'' = Inr DataFrame"
proof -
  have h: "df_empty DataFrame" by (simp add: df_empty_def DataFrame_def)
  from joinLeft_empty_side [OF h, of example_ranked "''competitor_id''" example_ranked] h
  show ?thesis by simp
qed



section \<open>Facts about data access and the whole run\<close>

lemma df_empty_DataFrame: "df_empty DataFrame"
  by (simp add: df_empty_def DataFrame_def)

lemma wf_df_DataFrame: "wf_df DataFrame"
  by (simp add: wf_df_def DataFrame_def)

lemma wf_df_DataFrame_of: "wf_df (DataFrame_of result)"
  by (simp add: wf_df_def DataFrame_of_def unique_def Let_def list_all_iff)

lemma DataFrame_of_Nil: "DataFrame_of [] = DataFrame"
  by (simp add: DataFrame_of_def unique_def DataFrame_def)

lemma get_connection_refused: "connect db = Inl (PymysqlError e) \<Longrightarrow> get_connection db = Inr None"
  by (simp add: get_connection_def)

lemma get_connection_returns:
  "\<forall>e. connect db \<noteq> Inl (OtherException e) \<Longrightarrow> \<exists>c. get_connection db = Inr c"
  by (auto simp: get_connection_def split: sum.splits db_error.splits)

lemma fetch_table_cases:
  "fetch_table db query = Inr DataFrame
   \<or> (\<exists>result. execute db query = Inr result \<and> fetch_table db query = Inr (DataFrame_of result))
   \<or> (\<exists>e. fetch_table db query = Inl (Uncaught e)
          \<and> (connect db = Inl (OtherException e) \<or> execute db query = Inl (OtherException e)))"
  by (auto simp: fetch_table_def get_connection_def
      split: option.splits sum.splits db_error.splits)

lemma fetch_table_no_connection:
  "connect db = Inl (PymysqlError e) \<Longrightarrow> fetch_table db query = Inr DataFrame"
  by (simp add: fetch_table_def get_connection_def)

lemma fetch_table_query_error:
  "\<forall>e. connect db \<noteq> Inl (OtherException e) \<Longrightarrow> execute db query = Inl (PymysqlError e)
     \<Longrightarrow> fetch_table db query = Inr DataFrame"
  by (auto simp: fetch_table_def get_connection_def
      split: option.splits sum.splits db_error.splits)

lemma fetch_table_no_rows:
  "\<forall>e. connect db \<noteq> Inl (OtherException e) \<Longrightarrow> execute db query = Inr []
     \<Longrightarrow> fetch_table db query = Inr DataFrame"
  by (auto simp: fetch_table_def get_connection_def DataFrame_of_Nil
      split: option.splits sum.splits db_error.splits)

lemma joinLeft_empty: "df_empty left \<or> df_empty right \<Longrightarrow> joinLeft left right key = Inr DataFrame"
  by (auto simp: joinLeft_def)

lemma top10_empty: "df_empty df \<Longrightarrow> top10 argsort df = Inr None"
  by (simp add: top10_def)

lemma option_list_empty: "df_empty df \<Longrightarrow> option_list df c = Inr []"
  by (simp add: option_list_def)

lemma load_data_no_connection:
  "connect db = Inl (PymysqlError e) \<Longrightarrow>
     load_data db =
       Inr \<lparr>df_competitors = DataFrame, df_rankings = DataFrame,
            df_complexes = DataFrame, df_venues = DataFrame,
            df_category = DataFrame, df_competition = DataFrame,
            df_merged = DataFrame, venue_info = DataFrame, comp_info = DataFrame\<rparr>"
  by (simp add: load_data_def get_connection_def and_then_def)

lemma load_data_all_empty:
  assumes "\<exists>c. get_connection db = Inr c"
    and "\<And>query. fetch_table db query = Inr DataFrame"
  shows "load_data db =
       Inr \<lparr>df_competitors = DataFrame, df_rankings = DataFrame,
            df_complexes = DataFrame, df_venues = DataFrame,
            df_category = DataFrame, df_competition = DataFrame,
            df_merged = DataFrame, venue_info = DataFrame, comp_info = DataFrame\<rparr>"
proof -
  from assms(1) obtain c where "get_connection db = Inr c" ..
  then show ?thesis
    by (simp add: load_data_def assms(2) and_then_def joinLeft_empty df_empty_DataFrame
        split: option.splits)
qed

lemma dashboard_all_empty:
  assumes "load_data db =
       Inr \<lparr>df_competitors = DataFrame, df_rankings = DataFrame,
            df_complexes = DataFrame, df_venues = DataFrame,
            df_category = DataFrame, df_competition = DataFrame,
            df_merged = DataFrame, venue_info = DataFrame, comp_info = DataFrame\<rparr>"
  shows "dashboard argsort db ui session =
       Inr (sidebar ui (initialize session),
            \<lparr>shown_rankings = DataFrame, shown_top10 = None,
             shown_venues = DataFrame, shown_competitions = DataFrame\<rparr>)"
  by (simp add: dashboard_def assms and_then_def Let_def option_list_empty top10_empty
      filtered_df_pass filtered_comp_pass df_empty_DataFrame)

lemma dashboard_top10:
  "dashboard argsort db ui session = Inr (st, p) \<Longrightarrow>
     \<exists>t. load_data db = Inr t \<and> top10 argsort (df_merged t) = Inr (shown_top10 p)"
  by (auto simp: dashboard_def and_then_def Let_def split: sum.splits)


section \<open>Empty inputs and failures: claims\<close>

text \<open>
  Claim C5: when either input of the join is empty the result is the empty frame and the
  merge is not attempted (a missing key column raises nothing); the filters return an empty
  frame as it is, and for an empty frame no top 10 is computed and nothing is raised. When
  every query yields no rows or fails with an error the script catches, the whole run ends
  without an exception and shows empty tables.
\<close>

theorem empty_input_is_valid:
  "(df_empty left \<or> df_empty right \<longrightarrow> joinLeft left right key = Inr DataFrame)
   \<and> df_empty DataFrame
   \<and> (df_empty df \<longrightarrow>
        filtered_df df st = Inr df \<and> filtered_comp df st = Inr df
        \<and> top10 argsort df = Inr None)
   \<and> ((\<forall>e. connect db \<noteq> Inl (OtherException e))
        \<and> (\<forall>query. execute db query = Inr []
               \<or> (\<exists>e. execute db query = Inl (PymysqlError e))) \<longrightarrow>
        dashboard argsort db ui session =
          Inr (sidebar ui (initialize session),
               \<lparr>shown_rankings = DataFrame, shown_top10 = None,
                shown_venues = DataFrame, shown_competitions = DataFrame\<rparr>))"
proof (intro conjI impI)
  assume "df_empty left \<or> df_empty right"
  then show "joinLeft left right key = Inr DataFrame" by (rule joinLeft_empty)
next
  show "df_empty DataFrame" by (rule df_empty_DataFrame)
next
  assume "df_empty df"
  then show "filtered_df df st = Inr df" by (simp add: filtered_df_pass)
next
  assume "df_empty df"
  then show "filtered_comp df st = Inr df" by (simp add: filtered_comp_pass)
next
  assume "df_empty df"
  then show "top10 argsort df = Inr None" by (rule top10_empty)
next
  assume a: "(\<forall>e. connect db \<noteq> Inl (OtherException e))
        \<and> (\<forall>query. execute db query = Inr []
               \<or> (\<exists>e. execute db query = Inl (PymysqlError e)))"
  then have c: "\<forall>e. connect db \<noteq> Inl (OtherException e)" ..
  have "fetch_table db query = Inr DataFrame" for query
  proof -
    from a have "execute db query = Inr [] \<or> (\<exists>e. execute db query = Inl (PymysqlError e))"
      by (elim conjE allE)
    then show ?thesis
    proof
      assume "execute db query = Inr []"
      with c show ?thesis by (rule fetch_table_no_rows)
    next
      assume "\<exists>e. execute db query = Inl (PymysqlError e)"
      then obtain e where "execute db query = Inl (PymysqlError e)" ..
      with c show ?thesis by (rule fetch_table_query_error)
    qed
  qed
  with get_connection_returns [OF c] have "load_data db =
       Inr \<lparr>df_competitors = DataFrame, df_rankings = DataFrame,
            df_complexes = DataFrame, df_venues = DataFrame,
            df_category = DataFrame, df_competition = DataFrame,
            df_merged = DataFrame, venue_info = DataFrame, comp_info = DataFrame\<rparr>"
    by (rule load_data_all_empty)
  then show "dashboard argsort db ui session =
          Inr (sidebar ui (initialize session),
               \<lparr>shown_rankings = DataFrame, shown_top10 = None,
                shown_venues = DataFrame, shown_competitions = DataFrame\<rparr>)"
    by (rule dashboard_all_empty)
qed

theorem empty_input_is_valid_witness:
  "df_empty DataFrame
   \<and> joinLeft DataFrame example_ranked ''no_such_column'' = Inr DataFrame
   \<and> filtered_df DataFrame (applied_state (Str ''France'') (Str ''ATP'')) = Inr DataFrame
   \<and> filtered_comp DataFrame (applied_state (Str ''France'') (Str ''ATP'')) = Inr DataFrame
   \<and> top10 stable_argsort DataFrame = Inr None
   \<and> dashboard stable_argsort (example_db\<lparr>execute := \<lambda>query. Inr []\<rparr>) ui_apply_france None
       = Inr (applied_state (Str ''France'') (Str ''ATP''),
              \<lparr>shown_rankings = DataFrame, shown_top10 = None,
               shown_venues = DataFrame, shown_competitions = DataFrame\<rparr>)"
proof -
  have h: "df_empty DataFrame" by (simp add: df_empty_def DataFrame_def)
  have c: "\<forall>e. connect (example_db\<lparr>execute := \<lambda>query. Inr []\<rparr>) \<noteq> Inl (OtherException e)"
    by (simp add: example_db_def)
  have s: "sidebar ui_apply_france (initialize None) = applied_state (Str ''France'') (Str ''ATP'')"
    by (simp add: sidebar_def ui_apply_france_def initialize_def initial_state_def
        apply_filters_def applied_state_def)
  show ?thesis
    using h s c
      empty_input_is_valid [of DataFrame example_ranked "''no_such_column''" DataFrame
        "applied_state (Str ''France'') (Str ''ATP'')" stable_argsort
        "example_db\<lparr>execute := \<lambda>query. Inr []\<rparr>" ui_apply_france None]
    by simp
qed

text \<open>
  Claim C8, as the specification states it: \<^verbatim>\<open>fetch_table\<close> never raises, whatever fails
  in the connection or the query. The two handlers name \<^verbatim>\<open>pymysql.Error\<close>: an exception of
  another class that the driver raises, from \<^verbatim>\<open>pymysql.connect\<close> or from the cursor,
  leaves \<^verbatim>\<open>fetch_table\<close>, and ends the run of the script.
\<close>

theorem fetch_table_uncaught_counterexample:
  "fetch_table (example_db\<lparr>connect := Inl (OtherException ''IndexError'')\<rparr>)
       ''SELECT * FROM competitors'' = Inl (Uncaught ''IndexError'')
   \<and> fetch_table (example_db\<lparr>execute := \<lambda>query. Inl (OtherException ''RuntimeError'')\<rparr>)
       ''SELECT * FROM competitors'' = Inl (Uncaught ''RuntimeError'')
   \<and> dashboard stable_argsort (example_db\<lparr>connect := Inl (OtherException ''IndexError'')\<rparr>)
       ui_apply_france None = Inl (Uncaught ''IndexError'')"
  by (simp add: fetch_table_def get_connection_def example_db_def dashboard_def load_data_def
      and_then_def)

text \<open>
  Claim C8, amended: for every query string, \<^verbatim>\<open>fetch_table\<close> raises nothing when the
  driver raises no exception outside the class \<^verbatim>\<open>pymysql.Error\<close>: it returns a well-formed
  frame, and the empty frame when the connection or the query fails with an error of that
  class. When the connection fails with such an error, the three joined frames are empty and
  the run ends without an exception, showing empty tables.
\<close>

theorem fetch_table_catches_pymysql_errors:
  "((\<forall>e. connect db \<noteq> Inl (OtherException e)) \<and> (\<forall>e. execute db query \<noteq> Inl (OtherException e))
      \<longrightarrow> (\<exists>df. fetch_table db query = Inr df \<and> wf_df df))
   \<and> ((\<exists>e. connect db = Inl (PymysqlError e))
        \<or> ((\<forall>e. connect db \<noteq> Inl (OtherException e))
            \<and> (\<exists>e. execute db query = Inl (PymysqlError e)))
        \<longrightarrow> fetch_table db query = Inr DataFrame)
   \<and> ((\<exists>e. connect db = Inl (PymysqlError e)) \<longrightarrow>
        (\<exists>t. load_data db = Inr t \<and> df_merged t = DataFrame \<and> venue_info t = DataFrame
              \<and> comp_info t = DataFrame)
        \<and> dashboard argsort db ui session =
            Inr (sidebar ui (initialize session),
                 \<lparr>shown_rankings = DataFrame, shown_top10 = None,
                  shown_venues = DataFrame, shown_competitions = DataFrame\<rparr>))"
proof (intro conjI impI)
  assume a: "(\<forall>e. connect db \<noteq> Inl (OtherException e))
               \<and> (\<forall>e. execute db query \<noteq> Inl (OtherException e))"
  from fetch_table_cases [of db query]
  consider "fetch_table db query = Inr DataFrame"
    | result where "fetch_table db query = Inr (DataFrame_of result)"
    | e where "connect db = Inl (OtherException e) \<or> execute db query = Inl (OtherException e)"
    by blast
  then show "\<exists>df. fetch_table db query = Inr df \<and> wf_df df"
  proof cases
    case 1
    with wf_df_DataFrame show ?thesis by blast
  next
    case 2
    with wf_df_DataFrame_of show ?thesis by blast
  next
    case 3
    with a show ?thesis by blast
  qed
next
  assume "(\<exists>e. connect db = Inl (PymysqlError e))
        \<or> ((\<forall>e. connect db \<noteq> Inl (OtherException e))
            \<and> (\<exists>e. execute db query = Inl (PymysqlError e)))"
  then show "fetch_table db query = Inr DataFrame"
  proof
    assume "\<exists>e. connect db = Inl (PymysqlError e)"
    then obtain e where "connect db = Inl (PymysqlError e)" ..
    then show ?thesis by (rule fetch_table_no_connection)
  next
    assume b: "(\<forall>e. connect db \<noteq> Inl (OtherException e))
            \<and> (\<exists>e. execute db query = Inl (PymysqlError e))"
    then obtain e where "execute db query = Inl (PymysqlError e)" by blast
    with b show ?thesis by (intro fetch_table_query_error) simp_all
  qed
next
  assume "\<exists>e. connect db = Inl (PymysqlError e)"
  then obtain e where "connect db = Inl (PymysqlError e)" ..
  then have "load_data db =
       Inr \<lparr>df_competitors = DataFrame, df_rankings = DataFrame,
            df_complexes = DataFrame, df_venues = DataFrame,
            df_category = DataFrame, df_competition = DataFrame,
            df_merged = DataFrame, venue_info = DataFrame, comp_info = DataFrame\<rparr>"
    by (rule load_data_no_connection)
  then show "\<exists>t. load_data db = Inr t \<and> df_merged t = DataFrame \<and> venue_info t = DataFrame
              \<and> comp_info t = DataFrame"
    by simp
next
  assume "\<exists>e. connect db = Inl (PymysqlError e)"
  then obtain e where "connect db = Inl (PymysqlError e)" ..
  then have "load_data db =
       Inr \<lparr>df_competitors = DataFrame, df_rankings = DataFrame,
            df_complexes = DataFrame, df_venues = DataFrame,
            df_category = DataFrame, df_competition = DataFrame,
            df_merged = DataFrame, venue_info = DataFrame, comp_info = DataFrame\<rparr>"
    by (rule load_data_no_connection)
  then show "dashboard argsort db ui session =
            Inr (sidebar ui (initialize session),
                 \<lparr>shown_rankings = DataFrame, shown_top10 = None,
                  shown_venues = DataFrame, shown_competitions = DataFrame\<rparr>)"
    by (rule dashboard_all_empty)
qed

theorem fetch_table_catches_pymysql_errors_witness:
  "fetch_table (example_db\<lparr>connect := Inl (PymysqlError ''refused'')\<rparr>)
       ''SELECT * FROM competitors'' = Inr DataFrame
   \<and> fetch_table (example_db\<lparr>execute := \<lambda>query. Inl (PymysqlError ''no such table'')\<rparr>)
       ''SELECT * FROM competitors'' = Inr DataFrame
   \<and> (\<exists>df. fetch_table example_db ''SELECT * FROM competitors'' = Inr df \<and> wf_df df)
   \<and> dashboard stable_argsort (example_db\<lparr>connect := Inl (PymysqlError ''refused'')\<rparr>)
       ui_apply_france None
       = Inr (applied_state (Str ''France'') (Str ''ATP''),
              \<lparr>shown_rankings = DataFrame, shown_top10 = None,
               shown_venues = DataFrame, shown_competitions = DataFrame\<rparr>)"
proof -
  have s: "sidebar ui_apply_france (initialize None) = applied_state (Str ''France'') (Str ''ATP'')"
    by (simp add: sidebar_def ui_apply_france_def initialize_def initial_state_def
        apply_filters_def applied_state_def)
  have c: "\<forall>e. connect example_db \<noteq> Inl (OtherException e)"
    "\<forall>e. execute example_db ''SELECT * FROM competitors'' \<noteq> Inl (OtherException e)"
    "\<forall>e. connect (example_db\<lparr>execute := \<lambda>query. Inl (PymysqlError ''no such table'')\<rparr>)
            \<noteq> Inl (OtherException e)"
    by (simp_all add: example_db_def)
  show ?thesis
    using s c
      fetch_table_catches_pymysql_errors
        [of "example_db\<lparr>connect := Inl (PymysqlError ''refused'')\<rparr>"
        "''SELECT * FROM competitors''" stable_argsort ui_apply_france None]
      fetch_table_catches_pymysql_errors
        [of "example_db\<lparr>execute := \<lambda>query. Inl (PymysqlError ''no such table'')\<rparr>"
        "''SELECT * FROM competitors''" stable_argsort ui_apply_france None]
      fetch_table_catches_pymysql_errors
        [of example_db "''SELECT * FROM competitors''" stable_argsort ui_apply_france None]
    by simp
qed


section \<open>Facts about the order of the top 10\<close>

lemma map_nth_filter_upt:
  "map ((!) xs) (filter (\<lambda>i. P (xs ! i)) [0..<length xs]) = filter P xs"
proof (induction xs rule: rev_induct)
  case Nil
  then show ?case by simp
next
  case (snoc x xs)
  have a: "filter (\<lambda>i. P ((xs @ [x]) ! i)) [0..<length xs]
             = filter (\<lambda>i. P (xs ! i)) [0..<length xs]"
    by (rule filter_cong) (auto simp: nth_append)
  have b: "map ((!) (xs @ [x])) (filter (\<lambda>i. P (xs ! i)) [0..<length xs])
             = map ((!) xs) (filter (\<lambda>i. P (xs ! i)) [0..<length xs])"
    by (rule map_cong) (auto simp: nth_append)
  from snoc a b show ?case by simp
qed

text \<open>
  The keys in the order \<open>nargsort\<close> gives: the keys that are present, arranged by the
  permutation, then the missing ones.
\<close>

lemma nargsort_keys:
  assumes "set (argsort (filter (\<lambda>v. v \<noteq> Null) items))
             \<subseteq> {0..<length (filter (\<lambda>v. v \<noteq> Null) items)}"
  shows "map ((!) items) (nargsort argsort items)
           = map ((!) (filter (\<lambda>v. v \<noteq> Null) items)) (argsort (filter (\<lambda>v. v \<noteq> Null) items))
             @ filter (\<lambda>v. v = Null) items"
    and "set (nargsort argsort items) \<subseteq> {0..<length items}"
proof -
  let ?nni = "filter (\<lambda>i. items ! i \<noteq> Null) [0..<length items]"
  let ?ks = "filter (\<lambda>v. v \<noteq> Null) items"
  have ks: "map ((!) items) ?nni = ?ks" by (rule map_nth_filter_upt)
  then have len: "length ?nni = length ?ks" by (metis length_map)
  have n: "nargsort argsort items
             = map (\<lambda>j. ?nni ! j) (argsort ?ks)
               @ filter (\<lambda>i. items ! i = Null) [0..<length items]"
    by (simp add: nargsort_def Let_def ks)
  have c: "items ! (?nni ! j) = ?ks ! j" if "j \<in> set (argsort ?ks)" for j
  proof -
    from that assms len have "j < length ?nni" by auto
    then have "map ((!) items) ?nni ! j = items ! (?nni ! j)" by (rule nth_map)
    with ks show ?thesis by simp
  qed
  have "map ((!) items) (map (\<lambda>j. ?nni ! j) (argsort ?ks)) = map ((!) ?ks) (argsort ?ks)"
    using c by simp
  moreover have "map ((!) items) (filter (\<lambda>i. items ! i = Null) [0..<length items])
                   = filter (\<lambda>v. v = Null) items"
    by (rule map_nth_filter_upt)
  ultimately show "map ((!) items) (nargsort argsort items)
           = map ((!) ?ks) (argsort ?ks) @ filter (\<lambda>v. v = Null) items"
    by (simp add: n)
  have "?nni ! j < length items" if "j \<in> set (argsort ?ks)" for j
  proof -
    from that assms len have "j < length ?nni" by auto
    then have "?nni ! j \<in> set ?nni" by (rule nth_mem)
    then show ?thesis by simp
  qed
  then show "set (nargsort argsort items) \<subseteq> {0..<length items}"
    by (auto simp: n)
qed

text \<open>
  Whatever permutation of positions \<open>argsort\<close> returns, the \<^verbatim>\<open>rank\<close> column of the top 10
  consists of the first ten of: the ranks that are present, in the order of that permutation,
  followed by the missing ranks. It is ascending when the permutation sorts.
\<close>

lemma top10_rank_column:
  assumes "\<not> df_empty df" and "index_of ''rank'' (columns df) = Some i"
    and "set (argsort (filter (\<lambda>v. v \<noteq> Null) (map (\<lambda>r. r ! i) (rows df))))
           \<subseteq> {0..<length (filter (\<lambda>v. v \<noteq> Null) (map (\<lambda>r. r ! i) (rows df)))}"
  shows "\<exists>out. top10 argsort df = Inr (Some out) \<and> columns out = columns df
           \<and> map (\<lambda>r. r ! i) (rows out)
               = take 10
                   (map ((!) (filter (\<lambda>v. v \<noteq> Null) (map (\<lambda>r. r ! i) (rows df))))
                        (argsort (filter (\<lambda>v. v \<noteq> Null) (map (\<lambda>r. r ! i) (rows df))))
                    @ filter (\<lambda>v. v = Null) (map (\<lambda>r. r ! i) (rows df)))"
proof -
  let ?items = "map (\<lambda>r. r ! i) (rows df)"
  let ?p = "nargsort argsort ?items"
  from nargsort_keys(2) [of argsort ?items, OF assms(3)] have r: "set ?p \<subseteq> {0..<length (rows df)}" by simp
  have "map (\<lambda>r. r ! i) (map (\<lambda>j. rows df ! j) ?p) = map ((!) ?items) ?p"
    using r by auto
  with nargsort_keys(1) [of argsort ?items, OF assms(3)] have
    "map (\<lambda>r. r ! i) (map (\<lambda>j. rows df ! j) ?p)
       = map ((!) (filter (\<lambda>v. v \<noteq> Null) ?items)) (argsort (filter (\<lambda>v. v \<noteq> Null) ?items))
         @ filter (\<lambda>v. v = Null) ?items"
    by simp
  then have "map (\<lambda>r. r ! i) (take 10 (map (\<lambda>j. rows df ! j) ?p))
       = take 10 (map ((!) (filter (\<lambda>v. v \<noteq> Null) ?items))
                      (argsort (filter (\<lambda>v. v \<noteq> Null) ?items))
                  @ filter (\<lambda>v. v = Null) ?items)"
    by (metis take_map)
  with assms(1,2) show ?thesis
    by (simp add: top10_def sort_values_def head_def)
qed



section \<open>The top 10: claims\<close>

text \<open>
  Claim C7: the top 10 a run shows does not depend on the filter state. Two runs over the
  same database, with any two sessions and any two user actions (apply, clear, or none),
  show the same top 10: it is computed from the unfiltered merged rankings.
\<close>

theorem top10_independent_of_filter_state:
  assumes "dashboard argsort db ui1 session1 = Inr (st1, p1)"
    and "dashboard argsort db ui2 session2 = Inr (st2, p2)"
  shows "shown_top10 p1 = shown_top10 p2"
proof -
  from dashboard_top10 [OF assms(1)] obtain t1 where
    t1: "load_data db = Inr t1" "top10 argsort (df_merged t1) = Inr (shown_top10 p1)" by blast
  from dashboard_top10 [OF assms(2)] obtain t2 where
    t2: "load_data db = Inr t2" "top10 argsort (df_merged t2) = Inr (shown_top10 p2)" by blast
  from t1(1) t2(1) have "t1 = t2" by simp
  with t1(2) t2(2) show ?thesis by simp
qed

theorem top10_independent_of_filter_state_witness:
  "dashboard stable_argsort example_db ui_apply_france None
     = Inr (applied_state (Str ''France'') (Str ''ATP''),
            \<lparr>shown_rankings =
               \<lparr>columns = [''competitor_id'', ''rank'', ''points'', ''name'', ''country''],
                rows = [[Num 1, Num 1, Num 100, Str ''Gasquet'', Str ''France'']]\<rparr>,
             shown_top10 =
               Some \<lparr>columns = [''competitor_id'', ''rank'', ''points'', ''name'', ''country''],
                     rows = [[Num 1, Num 1, Num 100, Str ''Gasquet'', Str ''France''],
                             [Num 2, Num 2, Num 90, Str ''Nadal'', Str ''Spain'']]\<rparr>,
             shown_venues = DataFrame,
             shown_competitions =
               \<lparr>columns = [''competition_id'', ''category_id'', ''category_name''],
                rows = [[Num 5, Num 1, Str ''ATP'']]\<rparr>\<rparr>)
   \<and> dashboard stable_argsort example_db ui_clear
         (Some (applied_state (Str ''Spain'') (Str ''WTA'')))
     = Inr (initial_state,
            \<lparr>shown_rankings =
               \<lparr>columns = [''competitor_id'', ''rank'', ''points'', ''name'', ''country''],
                rows = [[Num 1, Num 1, Num 100, Str ''Gasquet'', Str ''France''],
                        [Num 2, Num 2, Num 90, Str ''Nadal'', Str ''Spain'']]\<rparr>,
             shown_top10 =
               Some \<lparr>columns = [''competitor_id'', ''rank'', ''points'', ''name'', ''country''],
                     rows = [[Num 1, Num 1, Num 100, Str ''Gasquet'', Str ''France''],
                             [Num 2, Num 2, Num 90, Str ''Nadal'', Str ''Spain'']]\<rparr>,
             shown_venues = DataFrame,
             shown_competitions =
               \<lparr>columns = [''competition_id'', ''category_id'', ''category_name''],
                rows = [[Num 5, Num 1, Str ''ATP''], [Num 6, Num 9, Null]]\<rparr>\<rparr>)"
  (is "?run1 \<and> ?run2")
proof -
  have h1: ?run1 by code_simp
  have h2: ?run2 by code_simp
  from top10_independent_of_filter_state [OF h1 h2] h1 h2 show ?thesis by simp
qed

end
